theory Spec2Isabelle
  imports Complex_Main "HOL-Library.Log_Nat"
begin

section \<open>Data model of src/App.jsx\<close>

text \<open>
  Records of the salary corpus are JavaScript objects. A status is one of four string
  constants, a flag carries a type and a severity. The human-readable \<open>detail\<close> text of a
  flag (formatted numbers, display only) is not part of the model.

  Numbers: salaries and trust scores are integers (\<open>parseInt\<close>, integer literals and
  integer penalties). In the outlier detection means, variances and quotients are taken
  in the reals, that is, the rounding of IEEE doubles is idealised away there; the
  comparison analytics, whose rounded values are returned, are computed in the double
  arithmetic of the source (section Submission).
\<close>

datatype status = auto_approved | needs_review | flagged | rejected

datatype flag_type =
  extreme_outlier | outlier | low_for_exp | high_for_exp | company_mismatch | duplicate

datatype severity = medium | high

record flag =
  type :: flag_type
  severity :: severity

text \<open>The form state of \<open>SubmitPage\<close>: every field is the text of an input element.\<close>

record form =
  title :: string
  company :: string
  industry :: string
  city :: string
  experience :: string
  salary :: string
  bonus :: string
  salaryType :: string
  contractType :: string
  recentRaise :: string
  companySize :: string

text \<open>The object returned by \<open>detectOutliers\<close>.\<close>

record analysis =
  flags :: "flag list"
  trustScore :: int
  status :: status

text \<open>
  \<open>candidate\<close> is the object \<open>{ ...form, salary: sal }\<close>: the form with the parsed salary.
  An \<open>entry\<close> of the corpus extends it (\<open>{ ...form, id: ..., salary: sal, ... }\<close>).
  The field \<open>id\<close> is called \<open>ident\<close>; an absent optional string is the empty string
  (both are falsy in the source).
\<close>

record candidate =
  title :: string
  company :: string
  industry :: string
  city :: string
  experience :: string
  salary :: int
  bonus :: string
  salaryType :: string
  contractType :: string
  recentRaise :: string
  companySize :: string

record entry = candidate +
  ident :: int
  submitted :: string
  verified :: bool
  trustScore :: int
  status :: status
  flags :: "flag list"
  flagCount :: nat
  deviceHash :: string

section \<open>Strings\<close>

text \<open>
  \<open>String.prototype.toLowerCase\<close> on the ASCII letters; every other character is kept.
\<close>

definition lowerChar :: "char \<Rightarrow> char" where
  "lowerChar c =
     (case map_of (zip ''ABCDEFGHIJKLMNOPQRSTUVWXYZ'' ''abcdefghijklmnopqrstuvwxyz'') c of
        Some l \<Rightarrow> l
      | None \<Rightarrow> c)"

definition toLowerCase :: "string \<Rightarrow> string" where
  "toLowerCase s = map lowerChar s"

section \<open>Layer 2: statistical outlier detection\<close>

text \<open>
  The industry statistics of \<open>detectOutliers\<close> (lines 51 to 54). \<open>reduce\<close> is a left fold;
  \<open>Math.sqrt(variance) || 1\<close> replaces a zero root by 1.
\<close>

definition industryMean :: "entry list \<Rightarrow> real" where
  "industryMean sameIndustry =
     foldl (\<lambda>a s. a + real_of_int (salary s)) 0 sameIndustry / real (length sameIndustry)"

definition industryVariance :: "entry list \<Rightarrow> real" where
  "industryVariance sameIndustry =
     foldl (\<lambda>a s. a + (real_of_int (salary s) - industryMean sameIndustry) ^ 2) 0 sameIndustry
       / real (length sameIndustry)"

definition stdDev :: "entry list \<Rightarrow> real" where
  "stdDev sameIndustry =
     (let r = sqrt (industryVariance sameIndustry) in if r = 0 then 1 else r)"

definition zScore :: "int \<Rightarrow> entry list \<Rightarrow> real" where
  "zScore sal sameIndustry =
     \<bar>real_of_int sal - industryMean sameIndustry\<bar> / stdDev sameIndustry"

text \<open>
  The constant \<open>sameIndustryExp\<close> of the source is computed and never read; it is left out.
  Each signal of \<open>detectOutliers\<close> updates the pair of the local variables \<open>flags\<close> and
  \<open>trustScore\<close>; \<open>flags.push\<close> appends.
\<close>

type_synonym scoring = "flag list \<times> int"

definition zScoreSignal :: "int \<Rightarrow> entry list \<Rightarrow> scoring \<Rightarrow> scoring" where
  "zScoreSignal sal sameIndustry acc =
     (if 3 \<le> length sameIndustry then
        (if zScore sal sameIndustry > 3 then
           (fst acc @ [\<lparr>type = extreme_outlier, severity = high\<rparr>], snd acc - 40)
         else if zScore sal sameIndustry > 5 / 2 then
           (fst acc @ [\<lparr>type = outlier, severity = medium\<rparr>], snd acc - 20)
         else acc)
      else acc)"

definition expMap :: "string \<Rightarrow> (int \<times> int) option" where
  "expMap = map_of
     [(''0-1 years'', (5000, 25000)), (''1-3 years'', (8000, 40000)),
      (''3-5 years'', (12000, 60000)), (''5-8 years'', (15000, 80000)),
      (''8-12 years'', (20000, 100000)), (''12+ years'', (25000, 150000))]"

definition expRange :: "string \<Rightarrow> int \<times> int" where
  "expRange e = (case expMap e of Some r \<Rightarrow> r | None \<Rightarrow> (0, 999999))"

definition lowForExpSignal :: "int \<Rightarrow> string \<Rightarrow> scoring \<Rightarrow> scoring" where
  "lowForExpSignal sal e acc =
     (if real_of_int sal < real_of_int (fst (expRange e)) * (1 / 2) then
        (fst acc @ [\<lparr>type = low_for_exp, severity = medium\<rparr>], snd acc - 15)
      else acc)"

definition highForExpSignal :: "int \<Rightarrow> string \<Rightarrow> scoring \<Rightarrow> scoring" where
  "highForExpSignal sal e acc =
     (if real_of_int sal > real_of_int (snd (expRange e)) * (3 / 2) then
        (fst acc @ [\<lparr>type = high_for_exp, severity = high\<rparr>], snd acc - 30)
      else acc)"

text \<open>
  The company check divides by the company mean. In the source a zero mean gives
  \<open>Infinity\<close> (which exceeds 1) unless the numerator is zero as well (\<open>NaN\<close>, which does
  not); the model writes this case out instead of using the division of HOL.
\<close>

definition compMean :: "entry list \<Rightarrow> real" where
  "compMean sameCompany =
     foldl (\<lambda>a s. a + real_of_int (salary s)) 0 sameCompany / real (length sameCompany)"

definition deviationExceeds :: "int \<Rightarrow> entry list \<Rightarrow> bool" where
  "deviationExceeds sal sameCompany =
     (let m = compMean sameCompany in
      if m = 0 then sal \<noteq> 0 else \<bar>real_of_int sal - m\<bar> / m > 1)"

definition companySignal :: "int \<Rightarrow> entry list \<Rightarrow> scoring \<Rightarrow> scoring" where
  "companySignal sal sameCompany acc =
     (if 2 \<le> length sameCompany \<and> deviationExceeds sal sameCompany then
        (fst acc @ [\<lparr>type = company_mismatch, severity = high\<rparr>], snd acc - 25)
      else acc)"

definition roundNumberSignal :: "int \<Rightarrow> scoring \<Rightarrow> scoring" where
  "roundNumberSignal sal acc =
     (if 10000 \<le> sal \<and> sal mod 10000 = 0 \<and> 50000 < sal then (fst acc, snd acc - 5) else acc)"

definition isDuplicate :: "'a candidate_scheme \<Rightarrow> entry list \<Rightarrow> bool" where
  "isDuplicate e existingSalaries =
     list_ex (\<lambda>s. toLowerCase (title s) = toLowerCase (title e) \<and>
                  toLowerCase (company s) = toLowerCase (company e) \<and>
                  salary s = salary e) existingSalaries"

definition duplicateSignal :: "'a candidate_scheme \<Rightarrow> entry list \<Rightarrow> scoring \<Rightarrow> scoring" where
  "duplicateSignal e existingSalaries acc =
     (if isDuplicate e existingSalaries then
        (fst acc @ [\<lparr>type = duplicate, severity = high\<rparr>], snd acc - 50)
      else acc)"

definition statusOf :: "int \<Rightarrow> status" where
  "statusOf t = (if 70 \<le> t then auto_approved else if 40 \<le> t then needs_review else flagged)"

definition penalised :: "'a candidate_scheme \<Rightarrow> entry list \<Rightarrow> scoring" where
  "penalised e existingSalaries =
     (let sal = salary e;
          sameIndustry = filter (\<lambda>s. industry s = industry e) existingSalaries;
          sameCompany =
            filter (\<lambda>s. toLowerCase (company s) = toLowerCase (company e)) existingSalaries
      in duplicateSignal e existingSalaries
           (roundNumberSignal sal
             (companySignal sal sameCompany
               (highForExpSignal sal (experience e)
                 (lowForExpSignal sal (experience e)
                   (zScoreSignal sal sameIndustry ([], 100)))))))"

definition detectOutliers :: "'a candidate_scheme \<Rightarrow> entry list \<Rightarrow> analysis" where
  "detectOutliers e existingSalaries =
     (let acc = penalised e existingSalaries;
          t = max 0 (min 100 (snd acc))
      in \<lparr>analysis.flags = fst acc, analysis.trustScore = t, analysis.status = statusOf t\<rparr>)"

section \<open>Seed data\<close>

text \<open>
  The seed corpus \<open>INITIAL_SALARIES\<close> (lines 98 to 125), the initial value of the state
  \<open>salaries\<close> of \<open>App\<close>.
\<close>

definition INITIAL_SALARIES :: "entry list" where
  "INITIAL_SALARIES =
     [\<lparr>title = ''Software Engineer'', company = ''Vodafone Egypt'', industry = ''Telecom'', city = ''Cairo'',
       experience = ''3-5 years'', salary = 25000, bonus = '''', salaryType = '''',
       contractType = '''', recentRaise = '''', companySize = '''', ident = 1,
       submitted = ''2026-02-27'', verified = True, trustScore = 95, status = auto_approved,
       flags = [],
       flagCount = 0, deviceHash = ''''\<rparr>,
      \<lparr>title = ''Senior Frontend Developer'', company = ''Instabug'', industry = ''Technology'', city = ''Cairo'',
       experience = ''5-8 years'', salary = 45000, bonus = '''', salaryType = '''',
       contractType = '''', recentRaise = '''', companySize = '''', ident = 2,
       submitted = ''2026-02-26'', verified = True, trustScore = 92, status = auto_approved,
       flags = [],
       flagCount = 0, deviceHash = ''''\<rparr>,
      \<lparr>title = ''Data Analyst'', company = ''CIB'', industry = ''Banking & Finance'', city = ''Cairo'',
       experience = ''1-3 years'', salary = 15000, bonus = '''', salaryType = '''',
       contractType = '''', recentRaise = '''', companySize = '''', ident = 3,
       submitted = ''2026-02-26'', verified = False, trustScore = 88, status = auto_approved,
       flags = [],
       flagCount = 0, deviceHash = ''''\<rparr>,
      \<lparr>title = ''Product Manager'', company = ''Swvl'', industry = ''Technology'', city = ''Cairo'',
       experience = ''5-8 years'', salary = 55000, bonus = '''', salaryType = '''',
       contractType = '''', recentRaise = '''', companySize = '''', ident = 4,
       submitted = ''2026-02-25'', verified = True, trustScore = 78, status = auto_approved,
       flags = [],
       flagCount = 0, deviceHash = ''''\<rparr>,
      \<lparr>title = ''DevOps Engineer'', company = ''Fawry'', industry = ''Technology'', city = ''Cairo'',
       experience = ''3-5 years'', salary = 30000, bonus = '''', salaryType = '''',
       contractType = '''', recentRaise = '''', companySize = '''', ident = 5,
       submitted = ''2026-02-25'', verified = False, trustScore = 90, status = auto_approved,
       flags = [],
       flagCount = 0, deviceHash = ''''\<rparr>,
      \<lparr>title = ''Marketing Manager'', company = ''Nestle Egypt'', industry = ''FMCG'', city = ''Giza'',
       experience = ''5-8 years'', salary = 35000, bonus = '''', salaryType = '''',
       contractType = '''', recentRaise = '''', companySize = '''', ident = 6,
       submitted = ''2026-02-24'', verified = True, trustScore = 94, status = auto_approved,
       flags = [],
       flagCount = 0, deviceHash = ''''\<rparr>,
      \<lparr>title = ''Financial Analyst'', company = ''EFG Hermes'', industry = ''Banking & Finance'', city = ''Cairo'',
       experience = ''3-5 years'', salary = 28000, bonus = '''', salaryType = '''',
       contractType = '''', recentRaise = '''', companySize = '''', ident = 7,
       submitted = ''2026-02-24'', verified = True, trustScore = 91, status = auto_approved,
       flags = [],
       flagCount = 0, deviceHash = ''''\<rparr>,
      \<lparr>title = ''Backend Developer'', company = ''Paymob'', industry = ''Technology'', city = ''Cairo'',
       experience = ''3-5 years'', salary = 32000, bonus = '''', salaryType = '''',
       contractType = '''', recentRaise = '''', companySize = '''', ident = 8,
       submitted = ''2026-02-23'', verified = False, trustScore = 87, status = auto_approved,
       flags = [],
       flagCount = 0, deviceHash = ''''\<rparr>,
      \<lparr>title = ''UX Designer'', company = ''Orange Egypt'', industry = ''Telecom'', city = ''Cairo'',
       experience = ''1-3 years'', salary = 18000, bonus = '''', salaryType = '''',
       contractType = '''', recentRaise = '''', companySize = '''', ident = 9,
       submitted = ''2026-02-23'', verified = True, trustScore = 93, status = auto_approved,
       flags = [],
       flagCount = 0, deviceHash = ''''\<rparr>,
      \<lparr>title = ''Pharmacist'', company = ''Eva Pharma'', industry = ''Pharma'', city = ''Cairo'',
       experience = ''1-3 years'', salary = 12000, bonus = '''', salaryType = '''',
       contractType = '''', recentRaise = '''', companySize = '''', ident = 10,
       submitted = ''2026-02-22'', verified = False, trustScore = 85, status = auto_approved,
       flags = [],
       flagCount = 0, deviceHash = ''''\<rparr>,
      \<lparr>title = ''Network Engineer'', company = ''Etisalat Egypt'', industry = ''Telecom'', city = ''Alexandria'',
       experience = ''5-8 years'', salary = 28000, bonus = '''', salaryType = '''',
       contractType = '''', recentRaise = '''', companySize = '''', ident = 11,
       submitted = ''2026-02-22'', verified = True, trustScore = 90, status = auto_approved,
       flags = [],
       flagCount = 0, deviceHash = ''''\<rparr>,
      \<lparr>title = ''QA Engineer'', company = ''Breadfast'', industry = ''Technology'', city = ''Cairo'',
       experience = ''1-3 years'', salary = 16000, bonus = '''', salaryType = '''',
       contractType = '''', recentRaise = '''', companySize = '''', ident = 12,
       submitted = ''2026-02-21'', verified = False, trustScore = 86, status = auto_approved,
       flags = [],
       flagCount = 0, deviceHash = ''''\<rparr>,
      \<lparr>title = ''iOS Developer'', company = ''Careem'', industry = ''Technology'', city = ''Cairo'',
       experience = ''5-8 years'', salary = 50000, bonus = '''', salaryType = '''',
       contractType = '''', recentRaise = '''', companySize = '''', ident = 13,
       submitted = ''2026-02-21'', verified = True, trustScore = 88, status = auto_approved,
       flags = [],
       flagCount = 0, deviceHash = ''''\<rparr>,
      \<lparr>title = ''HR Manager'', company = ''Telecom Egypt'', industry = ''Telecom'', city = ''Cairo'',
       experience = ''8-12 years'', salary = 38000, bonus = '''', salaryType = '''',
       contractType = '''', recentRaise = '''', companySize = '''', ident = 14,
       submitted = ''2026-02-20'', verified = True, trustScore = 91, status = auto_approved,
       flags = [],
       flagCount = 0, deviceHash = ''''\<rparr>,
      \<lparr>title = ''ML Engineer'', company = ''Valeo Egypt'', industry = ''Technology'', city = ''Cairo'',
       experience = ''3-5 years'', salary = 40000, bonus = '''', salaryType = '''',
       contractType = '''', recentRaise = '''', companySize = '''', ident = 15,
       submitted = ''2026-02-20'', verified = True, trustScore = 89, status = auto_approved,
       flags = [],
       flagCount = 0, deviceHash = ''''\<rparr>,
      \<lparr>title = ''Accountant'', company = ''KPMG Egypt'', industry = ''Banking & Finance'', city = ''Cairo'',
       experience = ''1-3 years'', salary = 14000, bonus = '''', salaryType = '''',
       contractType = '''', recentRaise = '''', companySize = '''', ident = 16,
       submitted = ''2026-02-19'', verified = False, trustScore = 84, status = auto_approved,
       flags = [],
       flagCount = 0, deviceHash = ''''\<rparr>,
      \<lparr>title = ''Sales Executive'', company = ''P&G Egypt'', industry = ''FMCG'', city = ''Giza'',
       experience = ''3-5 years'', salary = 22000, bonus = '''', salaryType = '''',
       contractType = '''', recentRaise = '''', companySize = '''', ident = 17,
       submitted = ''2026-02-19'', verified = True, trustScore = 92, status = auto_approved,
       flags = [],
       flagCount = 0, deviceHash = ''''\<rparr>,
      \<lparr>title = ''Full Stack Developer'', company = ''MoneyFellows'', industry = ''Technology'', city = ''Cairo'',
       experience = ''3-5 years'', salary = 35000, bonus = '''', salaryType = '''',
       contractType = '''', recentRaise = '''', companySize = '''', ident = 18,
       submitted = ''2026-02-18'', verified = True, trustScore = 90, status = auto_approved,
       flags = [],
       flagCount = 0, deviceHash = ''''\<rparr>,
      \<lparr>title = ''Civil Engineer'', company = ''Orascom'', industry = ''Engineering'', city = ''Cairo'',
       experience = ''5-8 years'', salary = 20000, bonus = '''', salaryType = '''',
       contractType = '''', recentRaise = '''', companySize = '''', ident = 19,
       submitted = ''2026-02-18'', verified = False, trustScore = 82, status = auto_approved,
       flags = [],
       flagCount = 0, deviceHash = ''''\<rparr>,
      \<lparr>title = ''Android Developer'', company = ''Halan'', industry = ''Technology'', city = ''Cairo'',
       experience = ''3-5 years'', salary = 28000, bonus = '''', salaryType = '''',
       contractType = '''', recentRaise = '''', companySize = '''', ident = 20,
       submitted = ''2026-02-17'', verified = True, trustScore = 91, status = auto_approved,
       flags = [],
       flagCount = 0, deviceHash = ''''\<rparr>,
      \<lparr>title = ''Junior Intern'', company = ''Unknown Startup'', industry = ''Technology'', city = ''Cairo'',
       experience = ''0-1 years'', salary = 120000, bonus = '''', salaryType = '''',
       contractType = '''', recentRaise = '''', companySize = '''', ident = 21,
       submitted = ''2026-02-28'', verified = False, trustScore = 22, status = flagged,
       flags = [\<lparr>type = extreme_outlier, severity = high\<rparr>, \<lparr>type = high_for_exp, severity = high\<rparr>],
       flagCount = 0, deviceHash = ''abc12''\<rparr>,
      \<lparr>title = ''Software Engineer'', company = ''Vodafone Egypt'', industry = ''Telecom'', city = ''Cairo'',
       experience = ''3-5 years'', salary = 25000, bonus = '''', salaryType = '''',
       contractType = '''', recentRaise = '''', companySize = '''', ident = 22,
       submitted = ''2026-02-28'', verified = False, trustScore = 35, status = flagged,
       flags = [\<lparr>type = duplicate, severity = high\<rparr>],
       flagCount = 0, deviceHash = ''def34''\<rparr>,
      \<lparr>title = ''CEO'', company = ''Small Local Shop'', industry = ''Other'', city = ''Cairo'',
       experience = ''12+ years'', salary = 500000, bonus = '''', salaryType = '''',
       contractType = '''', recentRaise = '''', companySize = '''', ident = 23,
       submitted = ''2026-02-28'', verified = False, trustScore = 18, status = flagged,
       flags = [\<lparr>type = extreme_outlier, severity = high\<rparr>, \<lparr>type = high_for_exp, severity = high\<rparr>],
       flagCount = 2, deviceHash = ''ghi56''\<rparr>,
      \<lparr>title = ''Data Scientist'', company = ''Fawry'', industry = ''Technology'', city = ''Cairo'',
       experience = ''3-5 years'', salary = 85000, bonus = '''', salaryType = ''gross'',
       contractType = ''permanent'', recentRaise = ''yes'', companySize = '''', ident = 24,
       submitted = ''2026-02-27'', verified = False, trustScore = 52, status = needs_review,
       flags = [\<lparr>type = outlier, severity = medium\<rparr>],
       flagCount = 0, deviceHash = ''jkl78''\<rparr>,
      \<lparr>title = ''Receptionist'', company = ''Hilton Cairo'', industry = ''Other'', city = ''Cairo'',
       experience = ''1-3 years'', salary = 4000, bonus = '''', salaryType = '''',
       contractType = '''', recentRaise = '''', companySize = '''', ident = 25,
       submitted = ''2026-02-27'', verified = False, trustScore = 55, status = needs_review,
       flags = [\<lparr>type = low_for_exp, severity = medium\<rparr>],
       flagCount = 0, deviceHash = ''mno90''\<rparr>]"

section \<open>Layer 1: rate limiting\<close>

text \<open>
  \<open>DeviceFingerprint._submissions\<close> is a list of timestamps in milliseconds. One handler
  call reads the clock several times within the same instant; the model passes that
  instant as \<open>now\<close>. The memoised hash returned by \<open>generate\<close> is a function of the
  browser environment and is carried in the state as \<open>fingerprint\<close>.
\<close>

record rateCheck =
  blocked :: bool
  reason :: "string option"
  msg :: "string option"

definition recent :: "int \<Rightarrow> int list \<Rightarrow> int list" where
  "recent now ts = filter (\<lambda>t. now - t < 3600000) ts"

definition recordSubmission :: "int \<Rightarrow> int list \<Rightarrow> int list" where
  "recordSubmission now ts = recent now (ts @ [now])"

definition checkRateLimit :: "nat \<Rightarrow> rateCheck" where
  "checkRateLimit n =
     (if 5 \<le> n then
        \<lparr>blocked = True, reason = Some ''rate_hard'',
         msg = Some ''Too many submissions. Try again in an hour.''\<rparr>
      else if 3 \<le> n then
        \<lparr>blocked = False, reason = Some ''rate_warn'',
         msg = Some ''Multiple submissions detected. Please only submit your own salary.''\<rparr>
      else \<lparr>blocked = False, reason = None, msg = None\<rparr>)"

section \<open>Submission\<close>

text \<open>
  \<open>parseInt\<close> without a radix: leading white space, an optional sign, an optional
  \<open>0x\<close> prefix, then the longest prefix of digits; \<open>None\<close> is \<open>NaN\<close>.
\<close>

definition isWhiteSpace :: "char \<Rightarrow> bool" where
  "isWhiteSpace c = (c \<in> set [CHR '' '', CHR 0x09, CHR 0x0A, CHR 0x0B, CHR 0x0C, CHR 0x0D])"

definition digitValue :: "char \<Rightarrow> nat option" where
  "digitValue = map_of
     [(CHR ''0'', 0), (CHR ''1'', 1), (CHR ''2'', 2), (CHR ''3'', 3), (CHR ''4'', 4),
      (CHR ''5'', 5), (CHR ''6'', 6), (CHR ''7'', 7), (CHR ''8'', 8), (CHR ''9'', 9),
      (CHR ''a'', 10), (CHR ''b'', 11), (CHR ''c'', 12), (CHR ''d'', 13), (CHR ''e'', 14),
      (CHR ''f'', 15), (CHR ''A'', 10), (CHR ''B'', 11), (CHR ''C'', 12), (CHR ''D'', 13),
      (CHR ''E'', 14), (CHR ''F'', 15)]"

fun digitPrefix :: "nat \<Rightarrow> string \<Rightarrow> nat list" where
  "digitPrefix r [] = []"
| "digitPrefix r (c # cs) =
     (case digitValue c of
        Some d \<Rightarrow> if d < r then d # digitPrefix r cs else []
      | None \<Rightarrow> [])"

definition stripSign :: "string \<Rightarrow> bool \<times> string" where
  "stripSign s =
     (case s of
        [] \<Rightarrow> (False, s)
      | c # cs \<Rightarrow>
          if c = CHR ''-'' then (True, cs) else if c = CHR ''+'' then (False, cs) else (False, s))"

definition stripPrefix :: "string \<Rightarrow> nat \<times> string" where
  "stripPrefix s =
     (case s of
        a # b # cs \<Rightarrow>
          if a = CHR ''0'' \<and> (b = CHR ''x'' \<or> b = CHR ''X'') then (16, cs) else (10, s)
      | _ \<Rightarrow> (10, s))"

definition parseInt :: "string \<Rightarrow> int option" where
  "parseInt str =
     (let signed = stripSign (dropWhile isWhiteSpace str);
          radixed = stripPrefix (snd signed);
          ds = digitPrefix (fst radixed) (snd radixed);
          n = int (foldl (\<lambda>a d. a * fst radixed + d) 0 ds)
      in if ds = [] then None else Some (if fst signed then - n else n))"

text \<open>
  The arithmetic of the source is that of IEEE 754 binary64 numbers: the result of every
  operation is the exact result rounded to the nearest double, ties to the even
  significand. \<open>double x\<close> is that rounding of a rational \<open>x\<close>: with \<open>e\<close> the
  binary exponent of \<open>x\<close> (at least -1022, below which the doubles are subnormal), the
  doubles near \<open>x\<close> are the multiples of \<open>2\<close> to the \<open>e - 52\<close>. Results are taken to stay
  below \<open>2\<close> to the 1024, where the source would hold \<open>Infinity\<close>.
\<close>

definition pow2 :: "int \<Rightarrow> rat" where
  "pow2 k = (if 0 \<le> k then 2 ^ nat k else 1 / 2 ^ nat (- k))"

text \<open>
  The binary exponent of \<open>x \<noteq> 0\<close>, the integer \<open>e\<close> with \<open>pow2 e \<le> \<bar>x\<bar> < pow2 (e + 1)\<close>:
  it is the difference \<open>d\<close> of the bit lengths of numerator and denominator, or \<open>d - 1\<close>.
\<close>

definition exponent :: "rat \<Rightarrow> int" where
  "exponent x =
     (let d = bitlen (fst (quotient_of \<bar>x\<bar>)) - bitlen (snd (quotient_of \<bar>x\<bar>))
      in if pow2 d \<le> \<bar>x\<bar> then d else d - 1)"

definition roundTiesToEven :: "rat \<Rightarrow> int" where
  "roundTiesToEven m =
     (let f = \<lfloor>m\<rfloor>; r = m - of_int f
      in if r < 1 / 2 then f else if 1 / 2 < r then f + 1 else if even f then f else f + 1)"

definition double :: "rat \<Rightarrow> rat" where
  "double x =
     (if x = 0 then 0
      else let u = pow2 (max (exponent x) (- 1022) - 52)
           in of_int (roundTiesToEven (x / u)) * u)"

text \<open>
  \<open>Math.round\<close> gives the integer nearest to a double, halves upwards; the result is
  exact.
\<close>

definition jsRound :: "rat \<Rightarrow> int" where
  "jsRound x = \<lfloor>x + 1 / 2\<rfloor>"

text \<open>
  The comparison shown after a submission (lines 476 to 483), operation by operation in
  double arithmetic. \<open>diff\<close> is \<open>None\<close> when the division by \<open>avg\<close> is a division by
  zero (the source then holds a non-finite number).
\<close>

record comparison =
  avg :: int
  diff :: "int option"
  count :: nat
  percentile :: int

definition compareWith :: "int \<Rightarrow> entry list \<Rightarrow> comparison" where
  "compareWith sal similar =
     (let avg = (if length similar \<noteq> 0 then
                   jsRound (double (foldl (\<lambda>a s. double (a + of_int (salary s))) 0 similar
                                      / of_nat (length similar)))
                 else sal);
          diff = (if avg = 0 then None
                  else Some (jsRound (double (double (double (of_int sal - of_int avg)
                                                        / of_int avg) * 100))));
          sortedSimilar = sort_key salary similar;
          below = length (filter (\<lambda>s. salary s \<le> sal) sortedSimilar);
          percentile = (if length similar \<noteq> 0 then
                          jsRound (double (double (of_nat below / of_nat (length similar))
                                             * 100))
                        else 50)
      in \<lparr>avg = avg, diff = diff, count = length similar, percentile = percentile\<rparr>)"

definition similar :: "string \<Rightarrow> entry list \<Rightarrow> entry list" where
  "similar ind corpus = filter (\<lambda>s. industry s = ind \<and> status s \<noteq> flagged) corpus"

text \<open>Layer 3: the friction fields (lines 460 to 464).\<close>

definition optionalFieldsCompleted :: "form \<Rightarrow> nat" where
  "optionalFieldsCompleted f =
     length (filter (\<lambda>x. x \<noteq> [])
       [form.salaryType f, form.contractType f, form.recentRaise f, form.companySize f])"

definition frictionScore :: "nat \<Rightarrow> int \<Rightarrow> int" where
  "frictionScore n t =
     (let t1 = (if 3 \<le> n then min 100 (t + 10) else t)
      in if 2 \<le> n then min 100 (t1 + 5) else t1)"

definition applyFriction :: "nat \<Rightarrow> analysis \<Rightarrow> analysis" where
  "applyFriction n a =
     (let t = frictionScore n (analysis.trustScore a);
          a1 = a\<lparr>analysis.trustScore := t\<rparr>
      in if 70 \<le> t then a1\<lparr>analysis.status := auto_approved\<rparr>
         else if 40 \<le> t then a1\<lparr>analysis.status := needs_review\<rparr>
         else a1)"

definition candidateOf :: "form \<Rightarrow> int \<Rightarrow> candidate" where
  "candidateOf f sal =
     \<lparr>title = form.title f, company = form.company f, industry = form.industry f,
      city = form.city f, experience = form.experience f, salary = sal,
      bonus = form.bonus f, salaryType = form.salaryType f,
      contractType = form.contractType f, recentRaise = form.recentRaise f,
      companySize = form.companySize f\<rparr>"

definition newEntry :: "int \<Rightarrow> string \<Rightarrow> string \<Rightarrow> form \<Rightarrow> int \<Rightarrow> analysis \<Rightarrow> entry" where
  "newEntry now today fp f sal a =
     \<lparr>title = form.title f, company = form.company f, industry = form.industry f,
      city = form.city f, experience = form.experience f, salary = sal,
      bonus = form.bonus f, salaryType = form.salaryType f,
      contractType = form.contractType f, recentRaise = form.recentRaise f,
      companySize = form.companySize f,
      ident = now, submitted = today, verified = False,
      trustScore = analysis.trustScore a, status = analysis.status a,
      flags = analysis.flags a, flagCount = 0, deviceHash = fp\<rparr>"

text \<open>
  The state the handlers act on: the window of \<open>DeviceFingerprint\<close>, the corpus held by
  \<open>App\<close>, and the view state of \<open>SubmitPage\<close> and \<open>AdminPage\<close> (\<open>isSubmitted\<close> is the
  state variable \<open>submitted\<close>).
\<close>

record app_state =
  submissions :: "int list"
  fingerprint :: string
  salaries :: "entry list"
  rateError :: "string option"
  comparison :: "comparison option"
  validationResult :: "analysis option"
  isSubmitted :: bool
  actionLog :: "(int \<times> string \<times> string) list"

definition scored :: "form \<Rightarrow> int \<Rightarrow> entry list \<Rightarrow> analysis" where
  "scored f sal existing =
     applyFriction (optionalFieldsCompleted f) (detectOutliers (candidateOf f sal) existing)"

text \<open>
  \<open>handleSubmit\<close>, statement by statement: \<open>handleSubmit_trace\<close> lists the state after
  each statement that changes it, in program order; an early \<open>return\<close> ends the list.
  \<open>today\<close> is the date part of \<open>new Date().toISOString()\<close>.
\<close>

definition handleSubmit_trace :: "int \<Rightarrow> string \<Rightarrow> form \<Rightarrow> app_state \<Rightarrow> app_state list" where
  "handleSubmit_trace now today f st =
     (if form.title f = [] \<or> form.company f = [] \<or> form.salary f = [] then []
      else case parseInt (form.salary f) of
        None \<Rightarrow> []
      | Some sal \<Rightarrow>
          if sal \<le> 0 then []
          else
            let st1 = st\<lparr>submissions := recent now (submissions st)\<rparr>;
                rc = checkRateLimit (length (submissions st1))
            in if blocked rc then [st1, st1\<lparr>rateError := msg rc\<rparr>]
               else
                 let a = scored f sal (salaries st);
                     st2 = st1\<lparr>submissions := recordSubmission now (submissions st1)\<rparr>;
                     st3 = st2\<lparr>salaries :=
                                 newEntry now today (fingerprint st2) f sal a # salaries st2\<rparr>;
                     st4 = st3\<lparr>comparison :=
                                 Some (compareWith sal (similar (form.industry f) (salaries st)))\<rparr>;
                     st5 = st4\<lparr>validationResult := Some a\<rparr>;
                     st6 = st5\<lparr>isSubmitted := True\<rparr>
                 in [st1, st2, st3, st4, st5, st6])"

definition handleSubmit :: "int \<Rightarrow> string \<Rightarrow> form \<Rightarrow> app_state \<Rightarrow> app_state" where
  "handleSubmit now today f st = last (st # handleSubmit_trace now today f st)"

section \<open>Layer 4: community flags and moderation\<close>

definition handleFlag :: "int \<Rightarrow> entry list \<Rightarrow> entry list" where
  "handleFlag i prev = map (\<lambda>s. if ident s = i then s\<lparr>flagCount := flagCount s + 1\<rparr> else s) prev"

text \<open>
  \<open>SalaryRow\<close>: the flag button is rendered when the row is flaggable and hovered (or
  already flagged in this row); its click handler calls \<open>onFlag\<close> once per row.
  \<open>onFlag\<close> is \<open>handleFlag\<close>, as \<open>ExplorePage\<close> passes it (the rows of \<open>HomePage\<close>
  get no \<open>onFlag\<close> and change nothing). Every record of the model carries a status,
  so the disjunct \<open>!s.status\<close> is false.
\<close>

definition isFlaggable :: "entry \<Rightarrow> bool" where
  "isFlaggable s = (status s = auto_approved)"

definition flagButtonRendered :: "entry \<Rightarrow> bool \<Rightarrow> bool \<Rightarrow> bool" where
  "flagButtonRendered s showFlag rowFlagged = (isFlaggable s \<and> (showFlag \<or> rowFlagged))"

definition flagButtonClick :: "entry \<Rightarrow> bool \<Rightarrow> entry list \<Rightarrow> bool \<times> entry list" where
  "flagButtonClick s rowFlagged prev =
     (if \<not> rowFlagged then (True, handleFlag (ident s) prev) else (rowFlagged, prev))"

text \<open>A click on the row's flag control: without a rendered button nothing happens.\<close>

definition SalaryRow_flag :: "entry \<Rightarrow> bool \<Rightarrow> bool \<Rightarrow> entry list \<Rightarrow> bool \<times> entry list" where
  "SalaryRow_flag s showFlag rowFlagged prev =
     (if flagButtonRendered s showFlag rowFlagged then flagButtonClick s rowFlagged prev
      else (rowFlagged, prev))"

text \<open>\<open>AdminPage\<close>: the moderation handler, the review queue and the buttons it renders.\<close>

definition applyAction :: "int \<Rightarrow> string \<Rightarrow> entry \<Rightarrow> entry" where
  "applyAction i action s =
     (if ident s \<noteq> i then s
      else if action = ''approve'' then
        s\<lparr>status := auto_approved, verified := True, trustScore := max (trustScore s) 80\<rparr>
      else if action = ''reject'' then s\<lparr>status := rejected\<rparr>
      else s)"

definition handleAction :: "int \<Rightarrow> string \<Rightarrow> string \<Rightarrow> app_state \<Rightarrow> app_state" where
  "handleAction i action time st =
     st\<lparr>salaries := map (applyAction i action) (salaries st),
        actionLog := (i, action, time) # take 19 (actionLog st)\<rparr>"

definition queue :: "string \<Rightarrow> entry list \<Rightarrow> entry list" where
  "queue filterName corpus =
     (let flaggedQ = filter (\<lambda>s. status s = flagged) corpus;
          needsReview = filter (\<lambda>s. status s = needs_review) corpus;
          communityFlagged = filter (\<lambda>s. 0 < flagCount s \<and> status s = auto_approved) corpus
      in if filterName = ''flagged'' then flaggedQ
         else if filterName = ''needs_review'' then needsReview
         else if filterName = ''community'' then communityFlagged
         else flaggedQ @ needsReview @ communityFlagged)"

definition rowButtons :: "entry \<Rightarrow> (int \<times> string) list" where
  "rowButtons s =
     (if status s \<noteq> rejected \<and> status s \<noteq> auto_approved then
        [(ident s, ''approve''), (ident s, ''reject'')]
      else []) @
     (if status s = auto_approved \<and> 0 < flagCount s then [(ident s, ''reject'')] else [])"

definition adminButtons :: "string \<Rightarrow> entry list \<Rightarrow> (int \<times> string) list" where
  "adminButtons filterName corpus = concat (map rowButtons (queue filterName corpus))"

section \<open>Reachable states and properties to be checked\<close>

text \<open>The state of a freshly loaded page, for any fingerprint.\<close>

definition initialState :: "string \<Rightarrow> app_state" where
  "initialState fp =
     \<lparr>submissions = [], fingerprint = fp, salaries = INITIAL_SALARIES, rateError = None,
      comparison = None, validationResult = None, isSubmitted = False, actionLog = []\<rparr>"

text \<open>
  The states the application can reach: submissions, community flags (through
  \<open>handleFlag\<close>) and moderator actions, in any order.
\<close>

inductive reachable :: "app_state \<Rightarrow> bool" where
  start: "reachable (initialState fp)"
| submit: "reachable st \<Longrightarrow> reachable (handleSubmit now today f st)"
| flag: "reachable st \<Longrightarrow> reachable (st\<lparr>salaries := handleFlag i (salaries st)\<rparr>)"
| moderate: "reachable st \<Longrightarrow> reachable (handleAction i action time st)"

definition trustOk :: "entry list \<Rightarrow> bool" where
  "trustOk corpus = list_all (\<lambda>s. 0 \<le> trustScore s \<and> trustScore s \<le> 100) corpus"

text \<open>
  The population standard deviation as the specification words it: the root of the
  mean squared distance from the mean, dividing by the number of values.
\<close>

definition populationMean :: "int list \<Rightarrow> real" where
  "populationMean xs = real_of_int (sum_list xs) / real (length xs)"

definition populationStdDev :: "int list \<Rightarrow> real" where
  "populationStdDev xs =
     sqrt ((\<Sum>x\<leftarrow>xs. (real_of_int x - populationMean xs) ^ 2) / real (length xs))"

text \<open>
  The comparison population as the specification words it: the records of the
  candidate's industry, rejected records excluded.
\<close>

definition similarSpec :: "string \<Rightarrow> entry list \<Rightarrow> entry list" where
  "similarSpec ind corpus = filter (\<lambda>s. industry s = ind \<and> status s \<noteq> rejected) corpus"

text \<open>
  The order of commit as the specification words it, over the states of one run: a
  state whose window holds the timestamp of the run already holds the record created
  by the run.
\<close>

definition recordedOnlyAfterAppend :: "int \<Rightarrow> app_state list \<Rightarrow> bool" where
  "recordedOnlyAfterAppend now run =
     list_all (\<lambda>s. now \<in> set (submissions s) \<longrightarrow> list_ex (\<lambda>e. ident e = now) (salaries s)) run"

section \<open>Sample inputs\<close>

definition sampleEntry :: "status \<Rightarrow> entry" where
  "sampleEntry st =
     \<lparr>title = ''Data Analyst'', company = ''CIB'', industry = ''Technology'', city = ''Cairo'',
      experience = ''3-5 years'', salary = 20000, bonus = '''', salaryType = '''',
      contractType = '''', recentRaise = '''', companySize = '''', ident = 7,
      submitted = ''2026-02-26'', verified = False, trustScore = 88, status = st,
      flags = [], flagCount = 0, deviceHash = ''''\<rparr>"

definition sampleForm :: form where
  "sampleForm =
     \<lparr>form.title = ''data analyst'', form.company = ''Cib'', form.industry = ''Technology'',
      form.city = ''Cairo'', form.experience = ''3-5 years'', form.salary = ''20000'',
      form.bonus = '''', form.salaryType = ''net'', form.contractType = ''permanent'',
      form.recentRaise = ''no'', form.companySize = ''''\<rparr>"

definition sampleState :: "entry list \<Rightarrow> app_state" where
  "sampleState corpus =
     \<lparr>submissions = [], fingerprint = ''abc12'', salaries = corpus, rateError = None,
      comparison = None, validationResult = None, isSubmitted = False, actionLog = []\<rparr>"

definition sampleCorpus :: "entry list" where
  "sampleCorpus = [sampleEntry auto_approved]"

text \<open>The record that submitting \<open>sampleForm\<close> at time 1000 adds to \<open>sampleCorpus\<close>.\<close>

definition sampleNew :: entry where
  "sampleNew =
     newEntry 1000 ''2026-03-01'' ''abc12'' sampleForm 20000
       \<lparr>analysis.flags = [\<lparr>type = duplicate, severity = high\<rparr>], analysis.trustScore = 65,
        analysis.status = needs_review\<rparr>"

text \<open>Three records of one industry whose salaries 1, 1, 2 lie close together.\<close>

definition narrowGroup :: "entry list" where
  "narrowGroup =
     [(sampleEntry auto_approved)\<lparr>salary := 1\<rparr>, (sampleEntry auto_approved)\<lparr>salary := 1\<rparr>,
      (sampleEntry auto_approved)\<lparr>salary := 2\<rparr>]"

text \<open>A corpus whose only record is held back as flagged.\<close>

definition flaggedCorpus :: "entry list" where
  "flaggedCorpus = [sampleEntry flagged]"

text \<open>A corpus whose only record has been rejected by a moderator.\<close>

definition rejectedCorpus :: "entry list" where
  "rejectedCorpus = [sampleEntry rejected]"

text \<open>A live record and a record under review, with different ids.\<close>

definition mixedCorpus :: "entry list" where
  "mixedCorpus = [sampleEntry auto_approved, (sampleEntry needs_review)\<lparr>ident := 8\<rparr>]"
section \<open>Scoring lemmas\<close>

text \<open>No signal raises the score.\<close>

lemma zScoreSignal_snd: "snd (zScoreSignal sal xs acc) \<le> snd acc"
  by (simp add: zScoreSignal_def)
lemma lowForExpSignal_snd: "snd (lowForExpSignal sal e acc) \<le> snd acc"
  by (simp add: lowForExpSignal_def)
lemma highForExpSignal_snd: "snd (highForExpSignal sal e acc) \<le> snd acc"
  by (simp add: highForExpSignal_def)
lemma companySignal_snd: "snd (companySignal sal xs acc) \<le> snd acc"
  by (simp add: companySignal_def)
lemma roundNumberSignal_snd: "snd (roundNumberSignal sal acc) \<le> snd acc"
  by (simp add: roundNumberSignal_def)
lemma duplicateSignal_snd: "snd (duplicateSignal e xs acc) \<le> snd acc"
  by (simp add: duplicateSignal_def)

lemma beforeDuplicate_le_100:
  "snd (roundNumberSignal sal (companySignal sal ys (highForExpSignal sal ex
      (lowForExpSignal sal ex (zScoreSignal sal xs ([], 100)))))) \<le> 100"
proof -
  have "snd (zScoreSignal sal xs ([], 100)) \<le> 100"
    using zScoreSignal_snd [of sal xs "([], 100)"] by simp
  then have "snd (lowForExpSignal sal ex (zScoreSignal sal xs ([], 100))) \<le> 100"
    using lowForExpSignal_snd order_trans by blast
  then have "snd (highForExpSignal sal ex (lowForExpSignal sal ex (zScoreSignal sal xs ([], 100)))) \<le> 100"
    using highForExpSignal_snd order_trans by blast
  then have "snd (companySignal sal ys (highForExpSignal sal ex (lowForExpSignal sal ex (zScoreSignal sal xs ([], 100))))) \<le> 100"
    using companySignal_snd order_trans by blast
  then show ?thesis
    using roundNumberSignal_snd order_trans by blast
qed

lemma penalised_duplicate:
  assumes "isDuplicate e xs"
  shows "snd (penalised e xs) \<le> 50" and "\<lparr>type = duplicate, severity = high\<rparr> \<in> set (fst (penalised e xs))"
  using assms beforeDuplicate_le_100 [of "salary e" "filter (\<lambda>s. toLowerCase (company s) = toLowerCase (company e)) xs" "experience e" "filter (\<lambda>s. industry s = industry e) xs"]
  by (simp_all add: penalised_def duplicateSignal_def Let_def)

lemma detectOutliers_range:
  "0 \<le> analysis.trustScore (detectOutliers e xs)" "analysis.trustScore (detectOutliers e xs) \<le> 100"
  by (simp_all add: detectOutliers_def Let_def)

lemma detectOutliers_status:
  "analysis.status (detectOutliers e xs) = statusOf (analysis.trustScore (detectOutliers e xs))"
  by (simp add: detectOutliers_def Let_def)

lemma frictionScore_ge: "t \<le> 100 \<Longrightarrow> t \<le> frictionScore n t"
  by (auto simp add: frictionScore_def Let_def)
lemma frictionScore_le: "t \<le> 100 \<Longrightarrow> frictionScore n t \<le> 100"
  by (simp add: frictionScore_def Let_def)
lemma frictionScore_le15: "frictionScore n t \<le> t + 15"
  by (auto simp add: frictionScore_def Let_def)

lemma applyFriction_trustScore:
  "analysis.trustScore (applyFriction n a) = frictionScore n (analysis.trustScore a)"
  by (simp add: applyFriction_def Let_def)
lemma applyFriction_flags:
  "analysis.flags (applyFriction n a) = analysis.flags a"
  by (simp add: applyFriction_def Let_def)

lemma applyFriction_status:
  assumes "analysis.status a = statusOf (analysis.trustScore a)" "analysis.trustScore a \<le> 100"
  shows "analysis.status (applyFriction n a) = statusOf (analysis.trustScore (applyFriction n a))"
  using assms frictionScore_ge [of "analysis.trustScore a" n]
  by (simp add: applyFriction_def Let_def statusOf_def)

lemma scored_range:
  "0 \<le> analysis.trustScore (scored f sal xs)" "analysis.trustScore (scored f sal xs) \<le> 100"
  using detectOutliers_range [of "candidateOf f sal" xs]
    frictionScore_ge [of "analysis.trustScore (detectOutliers (candidateOf f sal) xs)" "optionalFieldsCompleted f"]
    frictionScore_le [of "analysis.trustScore (detectOutliers (candidateOf f sal) xs)" "optionalFieldsCompleted f"]
  by (simp_all add: scored_def applyFriction_trustScore)

lemma scored_status:
  "analysis.status (scored f sal xs) = statusOf (analysis.trustScore (scored f sal xs))"
  unfolding scored_def
  by (rule applyFriction_status) (simp_all add: detectOutliers_status detectOutliers_range)

text \<open>The three shapes of a run of \<open>handleSubmit\<close>: ended at validation, blocked, admitted.\<close>

lemma handleSubmit_cases:
  "(handleSubmit_trace now today f st = [] \<or>
    handleSubmit_trace now today f st =
      [st\<lparr>submissions := recent now (submissions st)\<rparr>,
       st\<lparr>submissions := recent now (submissions st), rateError := msg (checkRateLimit (length (recent now (submissions st))))\<rparr>]) \<or>
   (\<exists>sal. parseInt (form.salary f) = Some sal \<and> 0 < sal \<and>
      handleSubmit_trace now today f st =
       (let a = scored f sal (salaries st);
            st1 = st\<lparr>submissions := recent now (submissions st)\<rparr>;
            st2 = st1\<lparr>submissions := recordSubmission now (submissions st1)\<rparr>;
            st3 = st2\<lparr>salaries := newEntry now today (fingerprint st) f sal a # salaries st\<rparr>;
            st4 = st3\<lparr>comparison := Some (compareWith sal (similar (form.industry f) (salaries st)))\<rparr>;
            st5 = st4\<lparr>validationResult := Some a\<rparr>;
            st6 = st5\<lparr>isSubmitted := True\<rparr>
        in [st1, st2, st3, st4, st5, st6]))"
  by (auto simp add: handleSubmit_trace_def Let_def split: option.splits)

lemma handleSubmit_salaries_cases:
  "salaries (handleSubmit now today f st) = salaries st \<or>
   (\<exists>sal. parseInt (form.salary f) = Some sal \<and> 0 < sal \<and>
      salaries (handleSubmit now today f st) =
        newEntry now today (fingerprint st) f sal (scored f sal (salaries st)) # salaries st \<and>
      validationResult (handleSubmit now today f st) = Some (scored f sal (salaries st)) \<and>
      comparison (handleSubmit now today f st) =
        Some (compareWith sal (similar (form.industry f) (salaries st))))"
  using handleSubmit_cases [of now today f st]
  by (auto simp add: handleSubmit_def Let_def)

lemma handleSubmit_admitted:
  assumes "salaries (handleSubmit now today f st) = e # salaries st"
  shows "\<exists>sal. parseInt (form.salary f) = Some sal \<and> 0 < sal \<and>
      e = newEntry now today (fingerprint st) f sal (scored f sal (salaries st)) \<and>
      validationResult (handleSubmit now today f st) = Some (scored f sal (salaries st)) \<and>
      comparison (handleSubmit now today f st) =
        Some (compareWith sal (similar (form.industry f) (salaries st)))"
  using handleSubmit_salaries_cases [of now today f st] assms by auto

lemma newEntry_fields:
  "trustScore (newEntry now today fp f sal a) = analysis.trustScore a"
  "status (newEntry now today fp f sal a) = analysis.status a"
  "flags (newEntry now today fp f sal a) = analysis.flags a"
  "verified (newEntry now today fp f sal a) = False"
  "flagCount (newEntry now today fp f sal a) = 0"
  "ident (newEntry now today fp f sal a) = now"
  "salary (newEntry now today fp f sal a) = sal"
  "title (newEntry now today fp f sal a) = form.title f"
  "company (newEntry now today fp f sal a) = form.company f"
  "industry (newEntry now today fp f sal a) = form.industry f"
  by (simp_all add: newEntry_def)

section \<open>The sample submission, evaluated\<close>

lemma sample_parseInt: "parseInt (form.salary sampleForm) = Some 20000"
  by (simp add: sampleForm_def parseInt_def stripSign_def stripPrefix_def isWhiteSpace_def
      digitValue_def Let_def)

lemma sample_detectOutliers:
  "detectOutliers (candidateOf sampleForm 20000) sampleCorpus =
     \<lparr>analysis.flags = [\<lparr>type = duplicate, severity = high\<rparr>], analysis.trustScore = 50,
      analysis.status = needs_review\<rparr>"
  by (simp add: detectOutliers_def penalised_def Let_def candidateOf_def sampleForm_def
      sampleCorpus_def sampleEntry_def zScoreSignal_def lowForExpSignal_def highForExpSignal_def
      companySignal_def roundNumberSignal_def duplicateSignal_def isDuplicate_def
      toLowerCase_def lowerChar_def expRange_def expMap_def statusOf_def)

lemma sample_optionalFields: "optionalFieldsCompleted sampleForm = 3"
  by (simp add: optionalFieldsCompleted_def sampleForm_def)

lemma sample_scored:
  "scored sampleForm 20000 sampleCorpus =
     \<lparr>analysis.flags = [\<lparr>type = duplicate, severity = high\<rparr>], analysis.trustScore = 65,
      analysis.status = needs_review\<rparr>"
  unfolding scored_def sample_detectOutliers sample_optionalFields
  by (simp add: applyFriction_def frictionScore_def Let_def)

lemma sample_trace:
  "handleSubmit_trace 1000 ''2026-03-01'' sampleForm (sampleState sampleCorpus) =
     [sampleState sampleCorpus,
      (sampleState sampleCorpus)\<lparr>submissions := [1000]\<rparr>,
      (sampleState sampleCorpus)\<lparr>submissions := [1000], salaries := sampleNew # sampleCorpus\<rparr>,
      (sampleState sampleCorpus)\<lparr>submissions := [1000], salaries := sampleNew # sampleCorpus,
         comparison := Some (compareWith 20000 (similar ''Technology'' sampleCorpus))\<rparr>,
      (sampleState sampleCorpus)\<lparr>submissions := [1000], salaries := sampleNew # sampleCorpus,
         comparison := Some (compareWith 20000 (similar ''Technology'' sampleCorpus)),
         validationResult := Some (scored sampleForm 20000 sampleCorpus)\<rparr>,
      (sampleState sampleCorpus)\<lparr>submissions := [1000], salaries := sampleNew # sampleCorpus,
         comparison := Some (compareWith 20000 (similar ''Technology'' sampleCorpus)),
         validationResult := Some (scored sampleForm 20000 sampleCorpus),
         isSubmitted := True\<rparr>]"
proof -
  have f: "form.title sampleForm \<noteq> []" "form.company sampleForm \<noteq> []"
    "form.salary sampleForm \<noteq> []" "form.industry sampleForm = ''Technology''"
    by (simp_all add: sampleForm_def)
  have s: "submissions (sampleState sampleCorpus) = []"
    "salaries (sampleState sampleCorpus) = sampleCorpus"
    "fingerprint (sampleState sampleCorpus) = ''abc12''"
    by (simp_all add: sampleState_def)
  show ?thesis
    unfolding handleSubmit_trace_def sample_parseInt
    by (simp add: f s sampleNew_def sample_scored [symmetric] checkRateLimit_def recent_def
        recordSubmission_def Let_def)
qed

lemma sample_submit:
  "salaries (handleSubmit 1000 ''2026-03-01'' sampleForm (sampleState sampleCorpus)) =
     sampleNew # salaries (sampleState sampleCorpus)"
  unfolding handleSubmit_def sample_trace by (simp add: sampleState_def)

section \<open>Status thresholds\<close>

text \<open>
  C8. For every admitted submission the status of the new record is fixed by its final
  trust score, the score after the friction bonus: 70 and above is auto_approved, 40 to
  69 is needs_review, 39 and below is flagged. The result shown to the submitter
  carries the same score, status and flags.
\<close>

theorem C8_status_from_final_score:
  assumes "salaries (handleSubmit now today f st) = e # salaries st"
  shows "(70 \<le> trustScore e \<longrightarrow> status e = auto_approved) \<and>
         (40 \<le> trustScore e \<and> trustScore e \<le> 69 \<longrightarrow> status e = needs_review) \<and>
         (trustScore e \<le> 39 \<longrightarrow> status e = flagged) \<and>
         validationResult (handleSubmit now today f st) =
           Some \<lparr>analysis.flags = flags e, analysis.trustScore = trustScore e,
                 analysis.status = status e\<rparr>"
proof -
  from handleSubmit_admitted [OF assms] obtain sal where
    e: "e = newEntry now today (fingerprint st) f sal (scored f sal (salaries st))" and
    v: "validationResult (handleSubmit now today f st) = Some (scored f sal (salaries st))"
    by blast
  have "status e = statusOf (trustScore e)"
    by (simp add: e newEntry_fields scored_status)
  then show ?thesis
    by (simp add: statusOf_def v e newEntry_fields)
qed

theorem C8_status_from_final_score_witness:
  "salaries (handleSubmit 1000 ''2026-03-01'' sampleForm (sampleState sampleCorpus)) =
     sampleNew # salaries (sampleState sampleCorpus) \<and>
   trustScore sampleNew = 65 \<and> status sampleNew = needs_review"
  using C8_status_from_final_score [OF sample_submit]
  by (simp add: sample_submit sampleNew_def newEntry_def)

section \<open>Friction bonus\<close>

text \<open>
  C9. The friction bonus of an admitted submission depends only on how many of the four
  optional fields (salary type, contract type, recent raise, company size) are filled
  in: with exactly two the score of the outlier analysis grows by 5, with three or
  four it grows by 10 and then by 5 (15 in all), capped at 100 after each addition;
  with fewer than two it is unchanged.
\<close>

theorem C9_friction_bonus:
  assumes "salaries (handleSubmit now today f st) = e # salaries st"
  shows "\<exists>sal t n. parseInt (form.salary f) = Some sal \<and>
           t = analysis.trustScore (detectOutliers (candidateOf f sal) (salaries st)) \<and>
           n = length (filter (\<lambda>x. x \<noteq> [])
                 [form.salaryType f, form.contractType f, form.recentRaise f,
                  form.companySize f]) \<and>
           n \<le> 4 \<and>
           trustScore e =
             (if 3 \<le> n then min 100 (min 100 (t + 10) + 5)
              else if n = 2 then min 100 (t + 5) else t) \<and>
           (n = 2 \<and> t \<le> 95 \<longrightarrow> trustScore e = t + 5) \<and>
           (3 \<le> n \<and> t \<le> 85 \<longrightarrow> trustScore e = t + 15)"
proof -
  from handleSubmit_admitted [OF assms] obtain sal where
    p: "parseInt (form.salary f) = Some sal" and
    e: "e = newEntry now today (fingerprint st) f sal (scored f sal (salaries st))"
    by blast
  have t: "trustScore e =
      frictionScore (optionalFieldsCompleted f)
        (analysis.trustScore (detectOutliers (candidateOf f sal) (salaries st)))"
    by (simp add: e newEntry_fields scored_def applyFriction_trustScore)
  have n: "optionalFieldsCompleted f \<le> 4"
    by (simp add: optionalFieldsCompleted_def)
  show ?thesis
    using p n unfolding t
    by (auto simp add: frictionScore_def optionalFieldsCompleted_def Let_def)
qed

theorem C9_friction_bonus_witness:
  "salaries (handleSubmit 1000 ''2026-03-01'' sampleForm (sampleState sampleCorpus)) =
     sampleNew # salaries (sampleState sampleCorpus) \<and>
   analysis.trustScore (detectOutliers (candidateOf sampleForm 20000) sampleCorpus) = 50 \<and>
   optionalFieldsCompleted sampleForm = 3 \<and>
   trustScore sampleNew = 50 + 15"
  using C9_friction_bonus [OF sample_submit]
  by (simp add: sample_submit sample_detectOutliers sample_optionalFields sampleNew_def
      newEntry_def)

section \<open>Duplicates\<close>

text \<open>
  C1, as the specification states it, fails: a duplicate submission with three optional
  fields filled in ends with trust score 65, above 50.
\<close>

theorem C1_counterexample:
  "toLowerCase (title (sampleEntry auto_approved)) = toLowerCase (form.title sampleForm) \<and>
   toLowerCase (company (sampleEntry auto_approved)) = toLowerCase (form.company sampleForm) \<and>
   parseInt (form.salary sampleForm) = Some (salary (sampleEntry auto_approved)) \<and>
   salaries (sampleState sampleCorpus) = [sampleEntry auto_approved] \<and>
   \<not> trustScore
       (hd (salaries (handleSubmit 1000 ''2026-03-01'' sampleForm (sampleState sampleCorpus))))
       \<le> 50"
  unfolding sample_submit sample_parseInt
  by (simp add: sampleNew_def newEntry_def sampleEntry_def sampleForm_def sampleState_def
      sampleCorpus_def toLowerCase_def lowerChar_def)

text \<open>
  C1, amended. For every admitted submission whose title and company (both compared
  case-insensitively) and salary match a record of the corpus, the new record and the
  result carry a duplicate flag, the score of the outlier analysis (before the friction
  bonus) is at most 50, and the final trust score is at most 65; it is at most 50 when
  fewer than two optional fields are filled in.
\<close>

theorem C1_duplicate_flag_and_score:
  assumes "salaries (handleSubmit now today f st) = e # salaries st"
    and "s \<in> set (salaries st)"
    and "toLowerCase (title s) = toLowerCase (title e)"
    and "toLowerCase (company s) = toLowerCase (company e)"
    and "salary s = salary e"
  shows "\<lparr>type = duplicate, severity = high\<rparr> \<in> set (flags e) \<and>
         analysis.trustScore (detectOutliers (candidateOf f (salary e)) (salaries st)) \<le> 50 \<and>
         trustScore e \<le> 65 \<and>
         (optionalFieldsCompleted f < 2 \<longrightarrow> trustScore e \<le> 50) \<and>
         validationResult (handleSubmit now today f st) =
           Some \<lparr>analysis.flags = flags e, analysis.trustScore = trustScore e,
                 analysis.status = status e\<rparr>"
proof -
  from handleSubmit_admitted [OF assms(1)] obtain sal where
    e: "e = newEntry now today (fingerprint st) f sal (scored f sal (salaries st))" and
    v: "validationResult (handleSubmit now today f st) = Some (scored f sal (salaries st))"
    by blast
  have sal: "salary e = sal" by (simp add: e newEntry_fields)
  have "isDuplicate (candidateOf f sal) (salaries st)"
    using assms(2-5) unfolding isDuplicate_def list_ex_iff
    by (auto simp add: e newEntry_fields candidateOf_def)
  from penalised_duplicate [OF this]
  have d: "analysis.trustScore (detectOutliers (candidateOf f sal) (salaries st)) \<le> 50"
    and fl: "\<lparr>type = duplicate, severity = high\<rparr>
              \<in> set (analysis.flags (detectOutliers (candidateOf f sal) (salaries st)))"
    by (simp_all add: detectOutliers_def Let_def)
  have t: "trustScore e =
      frictionScore (optionalFieldsCompleted f)
        (analysis.trustScore (detectOutliers (candidateOf f sal) (salaries st)))"
    by (simp add: e newEntry_fields scored_def applyFriction_trustScore)
  have t65: "trustScore e \<le> 65"
    using d frictionScore_le15 [of "optionalFieldsCompleted f"
        "analysis.trustScore (detectOutliers (candidateOf f sal) (salaries st))"]
    unfolding t by linarith
  have t50: "optionalFieldsCompleted f < 2 \<longrightarrow> trustScore e \<le> 50"
    using d unfolding t by (simp add: frictionScore_def)
  have f: "\<lparr>type = duplicate, severity = high\<rparr> \<in> set (flags e)"
    using fl by (simp add: e newEntry_fields scored_def applyFriction_flags)
  show ?thesis
    using f d t65 t50 unfolding sal
    by (simp add: v e newEntry_fields)
qed

theorem C1_duplicate_flag_and_score_witness:
  "salaries (handleSubmit 1000 ''2026-03-01'' sampleForm (sampleState sampleCorpus)) =
     sampleNew # salaries (sampleState sampleCorpus) \<and>
   sampleEntry auto_approved \<in> set (salaries (sampleState sampleCorpus)) \<and>
   toLowerCase (title (sampleEntry auto_approved)) = toLowerCase (title sampleNew) \<and>
   toLowerCase (company (sampleEntry auto_approved)) = toLowerCase (company sampleNew) \<and>
   salary (sampleEntry auto_approved) = salary sampleNew \<and>
   \<lparr>type = duplicate, severity = high\<rparr> \<in> set (flags sampleNew) \<and>
   trustScore sampleNew \<le> 65"
proof -
  have a: "sampleEntry auto_approved \<in> set (salaries (sampleState sampleCorpus))"
    by (simp add: sampleState_def sampleCorpus_def)
  have b: "toLowerCase (title (sampleEntry auto_approved)) = toLowerCase (title sampleNew)"
    by (simp add: sampleNew_def newEntry_def sampleEntry_def sampleForm_def toLowerCase_def
        lowerChar_def)
  have c: "toLowerCase (company (sampleEntry auto_approved)) = toLowerCase (company sampleNew)"
    by (simp add: sampleNew_def newEntry_def sampleEntry_def sampleForm_def toLowerCase_def
        lowerChar_def)
  have d: "salary (sampleEntry auto_approved) = salary sampleNew"
    by (simp add: sampleNew_def newEntry_def sampleEntry_def)
  show ?thesis
    using C1_duplicate_flag_and_score [OF sample_submit a b c d] sample_submit a b c d
    by simp
qed

section \<open>Range of the trust score\<close>

lemma trustOk_INITIAL_SALARIES: "trustOk INITIAL_SALARIES"
  by (simp add: trustOk_def INITIAL_SALARIES_def)

lemma trustOk_handleFlag: "trustOk corpus \<Longrightarrow> trustOk (handleFlag i corpus)"
  by (auto simp add: trustOk_def handleFlag_def list_all_iff)

lemma applyAction_range:
  "0 \<le> trustScore s \<and> trustScore s \<le> 100 \<Longrightarrow>
   0 \<le> trustScore (applyAction i action s) \<and> trustScore (applyAction i action s) \<le> 100"
  by (auto simp add: applyAction_def)

lemma trustOk_handleAction:
  "trustOk (salaries st) \<Longrightarrow> trustOk (salaries (handleAction i action time st))"
  using applyAction_range by (simp add: trustOk_def handleAction_def list_all_iff)

lemma trustOk_handleSubmit:
  assumes "trustOk (salaries st)"
  shows "trustOk (salaries (handleSubmit now today f st))"
  using handleSubmit_salaries_cases [of now today f st] assms scored_range
  by (auto simp add: trustOk_def newEntry_fields)

lemma reachable_trustOk: "reachable st \<Longrightarrow> trustOk (salaries st)"
proof (induction rule: reachable.induct)
  case (start fp)
  show ?case by (simp add: initialState_def trustOk_INITIAL_SALARIES)
next
  case (submit st now today f)
  then show ?case by (simp add: trustOk_handleSubmit)
next
  case (flag st i)
  then show ?case by (simp add: trustOk_handleFlag)
next
  case (moderate st i action time)
  then show ?case by (simp add: trustOk_handleAction)
qed

text \<open>
  C7. The trust score stays between 0 and 100: the score of the outlier analysis, the
  score after the friction bonus, and the score of every record of every state the
  application reaches from the seed corpus by submissions, community flags and
  moderator actions (approve included).
\<close>

theorem C7_trustScore_in_range:
  "0 \<le> analysis.trustScore (detectOutliers c corpus) \<and>
   analysis.trustScore (detectOutliers c corpus) \<le> 100 \<and>
   0 \<le> analysis.trustScore (scored f sal corpus) \<and>
   analysis.trustScore (scored f sal corpus) \<le> 100 \<and>
   (reachable st \<and> s \<in> set (salaries st) \<longrightarrow> 0 \<le> trustScore s \<and> trustScore s \<le> 100) \<and>
   (reachable st \<and> s \<in> set (salaries (handleAction i ''approve'' time st)) \<longrightarrow>
      0 \<le> trustScore s \<and> trustScore s \<le> 100)"
proof -
  have a: "reachable st \<and> s \<in> set (salaries st) \<longrightarrow> 0 \<le> trustScore s \<and> trustScore s \<le> 100"
    using reachable_trustOk [of st] by (auto simp add: trustOk_def list_all_iff)
  have b: "reachable st \<and> s \<in> set (salaries (handleAction i ''approve'' time st)) \<longrightarrow>
      0 \<le> trustScore s \<and> trustScore s \<le> 100"
    using reachable_trustOk [OF reachable.moderate, of st i "''approve''" time]
    by (auto simp add: trustOk_def list_all_iff)
  show ?thesis
    using a b detectOutliers_range [of c corpus] scored_range [of f sal corpus] by simp
qed

theorem C7_trustScore_in_range_witness:
  "reachable (initialState ''abc12'') \<and>
   last INITIAL_SALARIES \<in> set (salaries (initialState ''abc12'')) \<and>
   0 \<le> trustScore (last INITIAL_SALARIES) \<and> trustScore (last INITIAL_SALARIES) \<le> 100 \<and>
   applyAction 25 ''approve'' (last INITIAL_SALARIES)
     \<in> set (salaries (handleAction 25 ''approve'' ''10:00'' (initialState ''abc12''))) \<and>
   0 \<le> trustScore (applyAction 25 ''approve'' (last INITIAL_SALARIES)) \<and>
   trustScore (applyAction 25 ''approve'' (last INITIAL_SALARIES)) \<le> 100"
proof -
  have r: "reachable (initialState ''abc12'')"
    by (rule reachable.start)
  have m: "last INITIAL_SALARIES \<in> set (salaries (initialState ''abc12''))"
    by (simp add: initialState_def INITIAL_SALARIES_def)
  then have m': "applyAction 25 ''approve'' (last INITIAL_SALARIES)
     \<in> set (salaries (handleAction 25 ''approve'' ''10:00'' (initialState ''abc12'')))"
    by (simp add: handleAction_def)
  show ?thesis
    using r m m'
      C7_trustScore_in_range [where st = "initialState ''abc12''"
        and s = "last INITIAL_SALARIES"]
      C7_trustScore_in_range [where st = "initialState ''abc12''"
        and s = "applyAction 25 ''approve'' (last INITIAL_SALARIES)" and i = 25
        and time = "''10:00''"]
    by blast
qed

section \<open>The verified mark\<close>

lemma handleFlag_verified: "map verified (handleFlag i corpus) = map verified corpus"
  by (simp add: handleFlag_def)

lemma applyAction_verified:
  "verified (applyAction i action s) = (verified s \<or> (ident s = i \<and> action = ''approve''))"
  by (simp add: applyAction_def)

text \<open>
  C10. A record created by a submission is unverified and has no community flags; a
  submission leaves the records already in the corpus as they are; a community flag
  changes no verified mark; a moderator action other than approve changes none; and
  approve sets the mark of the records it targets and clears none.
\<close>

theorem C10_verified_only_by_approve:
  "(salaries (handleSubmit now today f st) = e # salaries st \<longrightarrow>
      \<not> verified e \<and> flagCount e = 0) \<and>
   (salaries (handleSubmit now today f st) = salaries st \<or>
    (\<exists>n. salaries (handleSubmit now today f st) = n # salaries st)) \<and>
   map verified (handleFlag i corpus) = map verified corpus \<and>
   (action \<noteq> ''approve'' \<longrightarrow>
      map verified (salaries (handleAction i action time st)) = map verified (salaries st)) \<and>
   map verified (salaries (handleAction i ''approve'' time st)) =
     map (\<lambda>s. verified s \<or> ident s = i) (salaries st)"
proof -
  have a: "salaries (handleSubmit now today f st) = e # salaries st \<longrightarrow>
      \<not> verified e \<and> flagCount e = 0"
    using handleSubmit_admitted [of now today f st e] by (auto simp add: newEntry_fields)
  have b: "salaries (handleSubmit now today f st) = salaries st \<or>
    (\<exists>n. salaries (handleSubmit now today f st) = n # salaries st)"
    using handleSubmit_salaries_cases [of now today f st] by blast
  have c: "action \<noteq> ''approve'' \<longrightarrow>
      map verified (salaries (handleAction i action time st)) = map verified (salaries st)"
    by (simp add: handleAction_def applyAction_verified)
  have d: "map verified (salaries (handleAction i ''approve'' time st)) =
     map (\<lambda>s. verified s \<or> ident s = i) (salaries st)"
    by (simp add: handleAction_def applyAction_verified)
  show ?thesis
    using a b c d handleFlag_verified [of i corpus] by blast
qed

theorem C10_verified_only_by_approve_witness:
  "salaries (handleSubmit 1000 ''2026-03-01'' sampleForm (sampleState sampleCorpus)) =
     sampleNew # salaries (sampleState sampleCorpus) \<and>
   \<not> verified sampleNew \<and> flagCount sampleNew = 0 \<and>
   ''reject'' \<noteq> ''approve'' \<and>
   map verified (salaries (handleAction 7 ''reject'' ''10:00'' (sampleState sampleCorpus))) =
     map verified (salaries (sampleState sampleCorpus))"
  using C10_verified_only_by_approve [where now = 1000 and today = "''2026-03-01''"
      and f = sampleForm and st = "sampleState sampleCorpus" and e = sampleNew
      and action = "''reject''" and i = 7 and time = "''10:00''"]
    sample_submit
  by simp

section \<open>The divisor of the z-score\<close>

lemma foldl_add_sum_list:
  "foldl (\<lambda>a s. a + g s) (z::real) xs = z + sum_list (map g xs)"
  by (induction xs arbitrary: z) simp_all

lemma real_of_int_sum_list: "real_of_int (sum_list xs) = sum_list (map real_of_int xs)"
  by (induction xs) simp_all

lemma industryMean_population: "industryMean xs = populationMean (map salary xs)"
  by (simp add: industryMean_def populationMean_def foldl_add_sum_list real_of_int_sum_list
      comp_def)

lemma industryVariance_population:
  "sqrt (industryVariance xs) = populationStdDev (map salary xs)"
  by (simp add: industryVariance_def populationStdDev_def foldl_add_sum_list
      industryMean_population comp_def)

lemma populationStdDev_nonneg: "0 \<le> populationStdDev xs"
  unfolding populationStdDev_def
  by (intro real_sqrt_ge_zero divide_nonneg_nonneg sum_list_nonneg) auto

lemma narrow_population: "populationStdDev (map salary narrowGroup) = sqrt 2 / 3"
proof -
  have "populationStdDev (map salary narrowGroup) = sqrt (2 / 9)"
    by (simp add: populationStdDev_def populationMean_def narrowGroup_def sampleEntry_def
        power2_eq_square)
  also have "\<dots> = sqrt 2 / sqrt 9" by (rule real_sqrt_divide)
  also have "sqrt 9 = (3::real)" using real_sqrt_abs [of 3] by simp
  finally show ?thesis .
qed

lemma narrow_bounds: "0 < sqrt 2 / (3::real)" "sqrt 2 / 3 < (1::real)"
proof -
  show "0 < sqrt 2 / (3::real)" by simp
  have "sqrt 2 < sqrt 9" by (rule real_sqrt_less_mono) simp
  moreover have "sqrt 9 = (3::real)" using real_sqrt_abs [of 3] by simp
  ultimately show "sqrt 2 / 3 < (1::real)" by simp
qed

lemma narrow_stdDev: "stdDev narrowGroup = sqrt 2 / 3"
  using narrow_bounds
  by (simp add: stdDev_def Let_def industryVariance_population narrow_population)

lemma narrow_zScore: "3 < zScore 3 narrowGroup"
proof -
  have m: "industryMean narrowGroup = 4 / 3"
    by (simp add: industryMean_def narrowGroup_def sampleEntry_def)
  have "3 * sqrt 2 < 5"
  proof -
    have "sqrt 2 < sqrt (25 / 9)" by (rule real_sqrt_less_mono) simp
    also have "sqrt (25 / 9) = sqrt ((5 / 3) ^ 2)" by (simp add: power2_eq_square)
    also have "\<dots> = 5 / 3" by simp
    finally show ?thesis by simp
  qed
  then show ?thesis
    by (simp add: zScore_def m narrow_stdDev field_simps)
qed

text \<open>
  C4, as the specification states it, fails: for the three salaries 1, 1, 2 the
  population standard deviation lies strictly between 0 and 1, and the divisor is that
  value, not 1. A candidate salary of 3 is an extreme outlier there (z above 3), which
  it would not be with a divisor of 1.
\<close>

theorem C4_counterexample:
  "3 \<le> length narrowGroup \<and>
   0 < populationStdDev (map salary narrowGroup) \<and>
   populationStdDev (map salary narrowGroup) < 1 \<and>
   stdDev narrowGroup \<noteq> max 1 (populationStdDev (map salary narrowGroup)) \<and>
   3 < zScore 3 narrowGroup \<and>
   \<bar>real_of_int 3 - populationMean (map salary narrowGroup)\<bar>
     / max 1 (populationStdDev (map salary narrowGroup)) \<le> 5 / 2"
proof -
  have l: "3 \<le> length narrowGroup" by (simp add: narrowGroup_def)
  have m: "populationMean (map salary narrowGroup) = 4 / 3"
    by (simp add: populationMean_def narrowGroup_def sampleEntry_def)
  show ?thesis
    using l narrow_bounds narrow_zScore
    by (simp add: narrow_stdDev narrow_population m)
qed

text \<open>
  C4, amended. The divisor of the industry z-score is the population standard
  deviation (dividing by n) of the salaries of the group whenever that is not zero,
  and 1 when it is zero. It is positive, and it equals the maximum of 1 and the
  population standard deviation exactly when that deviation is zero or at least 1.
\<close>

theorem C4_divisor_is_stddev_or_one:
  "stdDev xs =
     (if populationStdDev (map salary xs) = 0 then 1 else populationStdDev (map salary xs)) \<and>
   0 < stdDev xs \<and>
   (stdDev xs = max 1 (populationStdDev (map salary xs)) \<longleftrightarrow>
      populationStdDev (map salary xs) = 0 \<or> 1 \<le> populationStdDev (map salary xs)) \<and>
   zScore sal xs = \<bar>real_of_int sal - populationMean (map salary xs)\<bar> / stdDev xs"
  using populationStdDev_nonneg [of "map salary xs"]
  by (auto simp add: stdDev_def zScore_def Let_def industryVariance_population
      industryMean_population)

theorem C4_divisor_is_stddev_or_one_witness:
  "populationStdDev (map salary narrowGroup) \<noteq> 0 \<and>
   stdDev narrowGroup = sqrt 2 / 3 \<and> 0 < stdDev narrowGroup"
  using C4_divisor_is_stddev_or_one [of narrowGroup] narrow_bounds
  by (simp add: narrow_population)

section \<open>Order of the commit\<close>

lemma recent_recent: "recent now (recent now ts) = recent now ts"
  by (simp add: recent_def)

lemma recordSubmission_recent:
  "recordSubmission now (recent now ts) = recent now ts @ [now]"
  by (simp add: recordSubmission_def recent_def)

text \<open>
  C2, as the specification states it, fails: in the run of the sample submission the
  second statement records the timestamp 1000 while the corpus still is the old one,
  which holds no record created at 1000; the record is prepended by the next statement.
\<close>

theorem C2_counterexample:
  "submissions (handleSubmit_trace 1000 ''2026-03-01'' sampleForm (sampleState sampleCorpus) ! 1)
     = [1000] \<and>
   salaries (handleSubmit_trace 1000 ''2026-03-01'' sampleForm (sampleState sampleCorpus) ! 1)
     = [sampleEntry auto_approved] \<and>
   ident (sampleEntry auto_approved) \<noteq> 1000 \<and>
   \<not> recordedOnlyAfterAppend 1000
       (handleSubmit_trace 1000 ''2026-03-01'' sampleForm (sampleState sampleCorpus))"
  unfolding sample_trace
  by (simp add: recordedOnlyAfterAppend_def sampleState_def sampleCorpus_def sampleEntry_def)

text \<open>
  C2, amended. A run of the admission sequence that ends at validation or at the hard
  rate limit records no timestamp and appends no record (it only prunes the window).
  An admitted run records the timestamp first and prepends the new record with the
  next statement; no later statement touches window or corpus, so at the end of every
  run the window holds the new timestamp exactly when the corpus holds the new record.
\<close>

theorem C2_timestamp_then_append:
  "(list_all (\<lambda>s. salaries s = salaries st \<and> submissions s = recent now (submissions st))
      (handleSubmit_trace now today f st) \<and>
    salaries (handleSubmit now today f st) = salaries st \<and>
    set (submissions (handleSubmit now today f st)) \<subseteq> set (submissions st)) \<or>
   (\<exists>e. ident e = now \<and>
      length (handleSubmit_trace now today f st) = 6 \<and>
      submissions (handleSubmit_trace now today f st ! 1) = recent now (submissions st) @ [now] \<and>
      salaries (handleSubmit_trace now today f st ! 1) = salaries st \<and>
      submissions (handleSubmit_trace now today f st ! 2) = recent now (submissions st) @ [now] \<and>
      salaries (handleSubmit_trace now today f st ! 2) = e # salaries st \<and>
      submissions (handleSubmit now today f st) = recent now (submissions st) @ [now] \<and>
      salaries (handleSubmit now today f st) = e # salaries st)"
proof -
  have sub: "set (recent now (submissions st)) \<subseteq> set (submissions st)"
    by (auto simp add: recent_def)
  from handleSubmit_cases [of now today f st]
  consider
    (invalid) "handleSubmit_trace now today f st = []"
  | (blocked) "handleSubmit_trace now today f st =
      [st\<lparr>submissions := recent now (submissions st)\<rparr>,
       st\<lparr>submissions := recent now (submissions st),
          rateError := msg (checkRateLimit (length (recent now (submissions st))))\<rparr>]"
  | (admitted) sal where "handleSubmit_trace now today f st =
       (let a = scored f sal (salaries st);
            st1 = st\<lparr>submissions := recent now (submissions st)\<rparr>;
            st2 = st1\<lparr>submissions := recordSubmission now (submissions st1)\<rparr>;
            st3 = st2\<lparr>salaries := newEntry now today (fingerprint st) f sal a # salaries st\<rparr>;
            st4 = st3\<lparr>comparison :=
                        Some (compareWith sal (similar (form.industry f) (salaries st)))\<rparr>;
            st5 = st4\<lparr>validationResult := Some a\<rparr>;
            st6 = st5\<lparr>isSubmitted := True\<rparr>
        in [st1, st2, st3, st4, st5, st6])"
    by blast
  then show ?thesis
  proof cases
    case invalid
    then show ?thesis by (simp add: handleSubmit_def)
  next
    case blocked
    then show ?thesis using sub by (simp add: handleSubmit_def)
  next
    case admitted
    have "ident (newEntry now today (fingerprint st) f sal (scored f sal (salaries st))) = now"
      by (simp add: newEntry_fields)
    then show ?thesis
      unfolding handleSubmit_def admitted
      by (intro disjI2 exI [of _ "newEntry now today (fingerprint st) f sal
            (scored f sal (salaries st))"])
        (simp add: Let_def recordSubmission_recent)
  qed
qed

theorem C2_timestamp_then_append_witness:
  "submissions (handleSubmit_trace 1000 ''2026-03-01'' sampleForm (sampleState sampleCorpus) ! 1)
     = recent 1000 (submissions (sampleState sampleCorpus)) @ [1000] \<and>
   salaries (handleSubmit_trace 1000 ''2026-03-01'' sampleForm (sampleState sampleCorpus) ! 2)
     = sampleNew # salaries (sampleState sampleCorpus) \<and>
   submissions (handleSubmit 1000 ''2026-03-01'' sampleForm (sampleState sampleCorpus))
     = [1000]"
  using C2_timestamp_then_append [of "sampleState sampleCorpus" 1000 "''2026-03-01''" sampleForm]
    sample_submit
  by (auto simp add: sampleState_def recent_def)

section \<open>Comparison analytics\<close>

text \<open>
  The double arithmetic at work: 14500 against an average of 20000 is 27.5 percent below
  in exact arithmetic, and the doubles of the source round the product to just below
  -27.5, so that \<open>Math.round\<close> gives -28; 63000 against 40000 gives 57 likewise.
\<close>

lemma compareWith_rounding:
  "compareWith 14500 [sampleEntry auto_approved] =
     \<lparr>avg = 20000, diff = Some (- 28), count = 1, percentile = 0\<rparr>"
  "compareWith 63000 [(sampleEntry auto_approved)\<lparr>salary := 40000\<rparr>] =
     \<lparr>avg = 40000, diff = Some 57, count = 1, percentile = 100\<rparr>"
  by code_simp+

lemma flagged_submit_comparison:
  "comparison (handleSubmit 1000 ''2026-03-01'' sampleForm (sampleState flaggedCorpus)) =
     Some (compareWith 20000 (similar ''Technology'' flaggedCorpus))"
proof -
  have f: "form.title sampleForm \<noteq> []" "form.company sampleForm \<noteq> []"
    "form.salary sampleForm \<noteq> []" "form.industry sampleForm = ''Technology''"
    by (simp_all add: sampleForm_def)
  have s: "submissions (sampleState flaggedCorpus) = []"
    "salaries (sampleState flaggedCorpus) = flaggedCorpus"
    by (simp_all add: sampleState_def)
  show ?thesis
    unfolding handleSubmit_def handleSubmit_trace_def sample_parseInt
    by (simp add: f s checkRateLimit_def recent_def Let_def)
qed

lemma flagged_similar: "similar ''Technology'' flaggedCorpus = []"
  by (simp add: similar_def flaggedCorpus_def sampleEntry_def)

lemma flagged_similarSpec: "similarSpec ''Technology'' flaggedCorpus = flaggedCorpus"
  by (simp add: similarSpec_def flaggedCorpus_def sampleEntry_def)

lemma flagged_compareWith:
  "compareWith 20000 flaggedCorpus =
     \<lparr>avg = 20000, diff = Some 0, count = 1, percentile = 100\<rparr>"
  by code_simp

lemma empty_compareWith:
  "compareWith 20000 [] = \<lparr>avg = 20000, diff = Some 0, count = 0, percentile = 50\<rparr>"
  by code_simp

text \<open>
  C5, as the specification states it, fails: against a corpus whose only record of the
  industry is flagged (and so not rejected), the comparison leaves that record out
  (count 0, percentile 50); over the records of the industry that are not rejected it
  would count it (count 1, percentile 100).
\<close>

theorem C5_counterexample:
  "status (sampleEntry flagged) \<noteq> rejected \<and>
   industry (sampleEntry flagged) = form.industry sampleForm \<and>
   salaries (sampleState flaggedCorpus) = [sampleEntry flagged] \<and>
   comparison (handleSubmit 1000 ''2026-03-01'' sampleForm (sampleState flaggedCorpus)) =
     Some \<lparr>avg = 20000, diff = Some 0, count = 0, percentile = 50\<rparr> \<and>
   compareWith 20000
     (similarSpec (form.industry sampleForm) (salaries (sampleState flaggedCorpus))) =
     \<lparr>avg = 20000, diff = Some 0, count = 1, percentile = 100\<rparr>"
proof -
  have "form.industry sampleForm = ''Technology''"
    "salaries (sampleState flaggedCorpus) = flaggedCorpus"
    by (simp_all add: sampleForm_def sampleState_def)
  then show ?thesis
    by (simp add: flagged_submit_comparison flagged_similar flagged_similarSpec
        flagged_compareWith empty_compareWith)
      (simp add: flaggedCorpus_def sampleEntry_def)
qed

text \<open>
  C5, amended. For every admitted submission the comparison returned with the result
  (average, percentage delta, count and percentile rank, in the double arithmetic of
  the source) is computed from the salary of the submission and the corpus as it was
  before the submission; flagged records take no part: when the corpus holds no
  rejected record of the candidate's industry, the population is the records of that
  industry that are not flagged. The statement that stores the comparison changes no
  other part of the state: corpus and submission window are the same before and after
  it. (What a rejected record of the industry does to the population is left open.)
\<close>

theorem C5_comparison_population:
  assumes "salaries (handleSubmit now today f st) = e # salaries st"
  shows "((\<forall>s\<in>set (salaries st). industry s = industry e \<longrightarrow> status s \<noteq> rejected) \<longrightarrow>
            comparison (handleSubmit now today f st) =
              Some (compareWith (salary e)
                (filter (\<lambda>s. industry s = industry e \<and> status s \<noteq> flagged) (salaries st)))) \<and>
         handleSubmit_trace now today f st ! 3 =
           (handleSubmit_trace now today f st ! 2)
             \<lparr>comparison := comparison (handleSubmit now today f st)\<rparr> \<and>
         salaries (handleSubmit_trace now today f st ! 3) =
           salaries (handleSubmit_trace now today f st ! 2) \<and>
         submissions (handleSubmit_trace now today f st ! 3) =
           submissions (handleSubmit_trace now today f st ! 2) \<and>
         salaries (handleSubmit now today f st) =
           salaries (handleSubmit_trace now today f st ! 2) \<and>
         submissions (handleSubmit now today f st) =
           submissions (handleSubmit_trace now today f st ! 2)"
proof -
  from handleSubmit_admitted [OF assms] obtain sal where
    e: "e = newEntry now today (fingerprint st) f sal (scored f sal (salaries st))" and
    c: "comparison (handleSubmit now today f st) =
        Some (compareWith sal (similar (form.industry f) (salaries st)))"
    by blast
  have ne: "salaries (handleSubmit now today f st) \<noteq> salaries st"
    using assms by simp
  from handleSubmit_cases [of now today f st] ne
  obtain sal' where t: "handleSubmit_trace now today f st =
       (let a = scored f sal' (salaries st);
            st1 = st\<lparr>submissions := recent now (submissions st)\<rparr>;
            st2 = st1\<lparr>submissions := recordSubmission now (submissions st1)\<rparr>;
            st3 = st2\<lparr>salaries := newEntry now today (fingerprint st) f sal' a # salaries st\<rparr>;
            st4 = st3\<lparr>comparison :=
                        Some (compareWith sal' (similar (form.industry f) (salaries st)))\<rparr>;
            st5 = st4\<lparr>validationResult := Some a\<rparr>;
            st6 = st5\<lparr>isSubmitted := True\<rparr>
        in [st1, st2, st3, st4, st5, st6])"
    by (auto simp add: handleSubmit_def)
  have c': "comparison (handleSubmit now today f st) =
        Some (compareWith sal' (similar (form.industry f) (salaries st)))"
    unfolding handleSubmit_def t by (simp add: Let_def)
  have 1: "comparison (handleSubmit now today f st) =
           Some (compareWith (salary e)
             (filter (\<lambda>s. industry s = industry e \<and> status s \<noteq> flagged) (salaries st)))"
    by (simp add: c e newEntry_fields similar_def)
  have 2: "handleSubmit_trace now today f st ! 3 =
           (handleSubmit_trace now today f st ! 2)
             \<lparr>comparison := comparison (handleSubmit now today f st)\<rparr>"
    unfolding c' unfolding t by (simp add: Let_def)
  have 3: "salaries (handleSubmit_trace now today f st ! 3) =
           salaries (handleSubmit_trace now today f st ! 2)"
    unfolding t by (simp add: Let_def)
  have 4: "submissions (handleSubmit_trace now today f st ! 3) =
           submissions (handleSubmit_trace now today f st ! 2)"
    unfolding t by (simp add: Let_def)
  have 5: "salaries (handleSubmit now today f st) =
           salaries (handleSubmit_trace now today f st ! 2)"
    unfolding handleSubmit_def unfolding t by (simp add: Let_def)
  have 6: "submissions (handleSubmit now today f st) =
           submissions (handleSubmit_trace now today f st ! 2)"
    unfolding handleSubmit_def unfolding t by (simp add: Let_def)
  show ?thesis
    using 1 2 3 4 5 6 by blast
qed

theorem C5_comparison_population_witness:
  "salaries (handleSubmit 1000 ''2026-03-01'' sampleForm (sampleState sampleCorpus)) =
     sampleNew # salaries (sampleState sampleCorpus) \<and>
   salaries (sampleState sampleCorpus) = [sampleEntry auto_approved] \<and>
   status (sampleEntry auto_approved) \<noteq> rejected \<and>
   comparison (handleSubmit 1000 ''2026-03-01'' sampleForm (sampleState sampleCorpus)) =
     Some \<lparr>avg = 20000, diff = Some 0, count = 1, percentile = 100\<rparr>"
proof -
  have h: "\<forall>s\<in>set (salaries (sampleState sampleCorpus)).
      industry s = industry sampleNew \<longrightarrow> status s \<noteq> rejected"
    by (simp add: sampleState_def sampleCorpus_def sampleEntry_def)
  have "compareWith (salary sampleNew)
          (filter (\<lambda>s. industry s = industry sampleNew \<and> status s \<noteq> flagged)
            (salaries (sampleState sampleCorpus))) =
        \<lparr>avg = 20000, diff = Some 0, count = 1, percentile = 100\<rparr>"
    by code_simp
  moreover have "salaries (sampleState sampleCorpus) = [sampleEntry auto_approved]"
    "status (sampleEntry auto_approved) \<noteq> rejected"
    by (simp_all add: sampleState_def sampleCorpus_def sampleEntry_def)
  ultimately show ?thesis
    using C5_comparison_population [OF sample_submit] sample_submit h by simp
qed

section \<open>Community flags\<close>

lemma handleFlag_nth:
  "k < length corpus \<Longrightarrow>
   handleFlag i corpus ! k =
     (corpus ! k)\<lparr>flagCount :=
        (if ident (corpus ! k) = i then flagCount (corpus ! k) + 1 else flagCount (corpus ! k))\<rparr>"
  by (simp add: handleFlag_def)

lemma handleFlag_other:
  "r \<in> set corpus \<Longrightarrow> ident r \<noteq> i \<Longrightarrow> r \<in> set (handleFlag i corpus)"
  by (force simp add: handleFlag_def)

lemma distinct_ident_eq:
  "distinct (map ident corpus) \<Longrightarrow> s \<in> set corpus \<Longrightarrow> r \<in> set corpus \<Longrightarrow>
   ident s = ident r \<Longrightarrow> s = r"
  by (meson distinct_map inj_on_eq_iff)

text \<open>
  C3, as the specification states it, fails: \<open>handleFlag\<close> checks no status, and called
  for a record under review it raises the flag count of that record.
\<close>

theorem C3_counterexample:
  "status (sampleEntry needs_review) = needs_review \<and>
   handleFlag (ident (sampleEntry needs_review)) [sampleEntry needs_review] =
     [(sampleEntry needs_review)\<lparr>flagCount := 1\<rparr>] \<and>
   handleFlag (ident (sampleEntry needs_review)) [sampleEntry needs_review] \<noteq>
     [sampleEntry needs_review]"
  by (simp add: handleFlag_def sampleEntry_def)

text \<open>
  C3, amended. The flag button of a row is rendered only for a record whose status is
  auto_approved; for a record of any other status the row offers no flag action and
  the corpus stays as it is (nothing is reported as an error). A click on the button of
  an auto_approved row not yet flagged in that row calls \<open>handleFlag\<close> with the id of
  the record. \<open>handleFlag\<close> itself checks no status: it raises the flag count of
  every record with the given id by exactly 1 and changes nothing else, in particular
  neither status nor trust score. With distinct ids a flag action of a row leaves every
  record whose status is not auto_approved unchanged.
\<close>

theorem C3_flag_gate_and_increment:
  "(status s \<noteq> auto_approved \<longrightarrow>
      \<not> flagButtonRendered s showFlag rowFlagged \<and>
      SalaryRow_flag s showFlag rowFlagged corpus = (rowFlagged, corpus)) \<and>
   (status s = auto_approved \<and> showFlag \<and> \<not> rowFlagged \<longrightarrow>
      SalaryRow_flag s showFlag rowFlagged corpus = (True, handleFlag (ident s) corpus)) \<and>
   length (handleFlag i corpus) = length corpus \<and>
   (k < length corpus \<longrightarrow>
      handleFlag i corpus ! k =
        (corpus ! k)\<lparr>flagCount :=
           (if ident (corpus ! k) = i then flagCount (corpus ! k) + 1
            else flagCount (corpus ! k))\<rparr> \<and>
      status (handleFlag i corpus ! k) = status (corpus ! k) \<and>
      trustScore (handleFlag i corpus ! k) = trustScore (corpus ! k)) \<and>
   (distinct (map ident corpus) \<and> s \<in> set corpus \<and> r \<in> set corpus \<and>
    status r \<noteq> auto_approved \<longrightarrow>
      r \<in> set (snd (SalaryRow_flag s showFlag rowFlagged corpus)))"
proof -
  have a: "status s \<noteq> auto_approved \<longrightarrow>
      \<not> flagButtonRendered s showFlag rowFlagged \<and>
      SalaryRow_flag s showFlag rowFlagged corpus = (rowFlagged, corpus)"
    by (simp add: SalaryRow_flag_def flagButtonRendered_def isFlaggable_def)
  have b: "status s = auto_approved \<and> showFlag \<and> \<not> rowFlagged \<longrightarrow>
      SalaryRow_flag s showFlag rowFlagged corpus = (True, handleFlag (ident s) corpus)"
    by (simp add: SalaryRow_flag_def flagButtonRendered_def isFlaggable_def flagButtonClick_def)
  have c: "length (handleFlag i corpus) = length corpus"
    by (simp add: handleFlag_def)
  have d: "k < length corpus \<longrightarrow>
      handleFlag i corpus ! k =
        (corpus ! k)\<lparr>flagCount :=
           (if ident (corpus ! k) = i then flagCount (corpus ! k) + 1
            else flagCount (corpus ! k))\<rparr> \<and>
      status (handleFlag i corpus ! k) = status (corpus ! k) \<and>
      trustScore (handleFlag i corpus ! k) = trustScore (corpus ! k)"
    by (simp add: handleFlag_nth)
  have e: "distinct (map ident corpus) \<and> s \<in> set corpus \<and> r \<in> set corpus \<and>
    status r \<noteq> auto_approved \<longrightarrow>
      r \<in> set (snd (SalaryRow_flag s showFlag rowFlagged corpus))"
  proof (intro impI, elim conjE)
    assume h: "distinct (map ident corpus)" "s \<in> set corpus" "r \<in> set corpus"
      "status r \<noteq> auto_approved"
    show "r \<in> set (snd (SalaryRow_flag s showFlag rowFlagged corpus))"
    proof (cases "flagButtonRendered s showFlag rowFlagged \<and> \<not> rowFlagged")
      case True
      then have "status s = auto_approved"
        by (simp add: flagButtonRendered_def isFlaggable_def)
      with h have "ident r \<noteq> ident s"
        using distinct_ident_eq [of corpus s r] by auto
      with h(3) have "r \<in> set (handleFlag (ident s) corpus)"
        by (rule handleFlag_other)
      with True show ?thesis
        by (auto simp add: SalaryRow_flag_def flagButtonClick_def)
    next
      case False
      with h(3) show ?thesis
        by (auto simp add: SalaryRow_flag_def flagButtonClick_def)
    qed
  qed
  show ?thesis
    using a b c d e by blast
qed

theorem C3_flag_gate_and_increment_witness:
  "status (sampleEntry needs_review) \<noteq> auto_approved \<and>
   SalaryRow_flag (sampleEntry needs_review) True False [sampleEntry needs_review] =
     (False, [sampleEntry needs_review]) \<and>
   status (sampleEntry auto_approved) = auto_approved \<and>
   SalaryRow_flag (sampleEntry auto_approved) True False mixedCorpus =
     (True, handleFlag 7 mixedCorpus) \<and>
   0 < length mixedCorpus \<and>
   flagCount (handleFlag 7 mixedCorpus ! 0) = 1 \<and>
   status (handleFlag 7 mixedCorpus ! 0) = auto_approved \<and>
   distinct (map ident mixedCorpus) \<and>
   (sampleEntry needs_review)\<lparr>ident := 8\<rparr>
     \<in> set (snd (SalaryRow_flag (sampleEntry auto_approved) True False mixedCorpus))"
proof -
  have a: "status (sampleEntry needs_review) \<noteq> auto_approved"
    "status (sampleEntry auto_approved) = auto_approved"
    "ident (sampleEntry auto_approved) = 7"
    by (simp_all add: sampleEntry_def)
  have b: "0 < length mixedCorpus" "distinct (map ident mixedCorpus)"
    "sampleEntry auto_approved \<in> set mixedCorpus"
    "(sampleEntry needs_review)\<lparr>ident := 8\<rparr> \<in> set mixedCorpus"
    "status ((sampleEntry needs_review)\<lparr>ident := 8\<rparr>) \<noteq> auto_approved"
    "mixedCorpus ! 0 = sampleEntry auto_approved"
    by (simp_all add: mixedCorpus_def sampleEntry_def)
  have c: "flagCount (sampleEntry auto_approved) = 0"
    by (simp add: sampleEntry_def)
  show ?thesis
    using a b c
      C3_flag_gate_and_increment [where s = "sampleEntry needs_review" and showFlag = True
        and rowFlagged = False and corpus = "[sampleEntry needs_review]"]
      C3_flag_gate_and_increment [where s = "sampleEntry auto_approved" and showFlag = True
        and rowFlagged = False and corpus = mixedCorpus and i = 7 and k = 0
        and r = "(sampleEntry needs_review)\<lparr>ident := 8\<rparr>"]
    by auto
qed

section \<open>Moderation\<close>

lemma queue_subset: "s \<in> set (queue filterName corpus) \<Longrightarrow> s \<in> set corpus"
  by (auto simp add: queue_def Let_def split: if_splits)

lemma queue_not_rejected: "s \<in> set (queue filterName corpus) \<Longrightarrow> status s \<noteq> rejected"
  by (auto simp add: queue_def Let_def split: if_splits)

lemma rowButtons_cases:
  "(i, action) \<in> set (rowButtons s) \<Longrightarrow>
   ident s = i \<and>
   (action = ''approve'' \<and> (status s = flagged \<or> status s = needs_review) \<or>
    action = ''reject'' \<and>
      (status s = flagged \<or> status s = needs_review \<or>
       status s = auto_approved \<and> 1 \<le> flagCount s))"
  by (cases "status s") (auto simp add: rowButtons_def split: if_splits)

lemma adminButtons_target:
  assumes "(i, action) \<in> set (adminButtons filterName corpus)"
  shows "\<exists>s\<in>set corpus. ident s = i \<and>
     (action = ''approve'' \<and> (status s = flagged \<or> status s = needs_review) \<or>
      action = ''reject'' \<and>
        (status s = flagged \<or> status s = needs_review \<or>
         status s = auto_approved \<and> 1 \<le> flagCount s))"
proof -
  from assms obtain s where s: "s \<in> set (queue filterName corpus)"
    "(i, action) \<in> set (rowButtons s)"
    by (auto simp add: adminButtons_def)
  from rowButtons_cases [OF s(2)] queue_subset [OF s(1)] show ?thesis
    by blast
qed

text \<open>
  C6, as the specification states it, fails: \<open>handleAction\<close> checks no status, and an
  approve for a rejected record makes it auto_approved and verified again.
\<close>

theorem C6_counterexample:
  "status (sampleEntry rejected) = rejected \<and>
   salaries (sampleState rejectedCorpus) = [sampleEntry rejected] \<and>
   salaries (handleAction (ident (sampleEntry rejected)) ''approve'' ''10:00''
     (sampleState rejectedCorpus)) =
     [(sampleEntry rejected)\<lparr>status := auto_approved, verified := True\<rparr>] \<and>
   status (hd (salaries (handleAction (ident (sampleEntry rejected)) ''approve'' ''10:00''
     (sampleState rejectedCorpus)))) \<noteq> rejected"
  by (simp add: handleAction_def applyAction_def sampleState_def rejectedCorpus_def
      sampleEntry_def)

text \<open>
  C6, amended. The review queue of the admin page holds no rejected record, and every
  button it renders targets a record of the corpus whose status is flagged or
  needs_review (approve and reject) or an auto_approved record with at least one
  community flag (reject only). A rejected record has no buttons, and with distinct ids
  no rendered button changes a rejected record. \<open>handleAction\<close> itself checks no
  status: for the record with the given id approve sets auto_approved and reject sets
  rejected, whatever the status was.
\<close>

theorem C6_moderation_buttons:
  "((i, action) \<in> set (adminButtons filterName corpus) \<longrightarrow>
      (\<exists>s\<in>set corpus. ident s = i \<and>
         (action = ''approve'' \<and> (status s = flagged \<or> status s = needs_review) \<or>
          action = ''reject'' \<and>
            (status s = flagged \<or> status s = needs_review \<or>
             status s = auto_approved \<and> 1 \<le> flagCount s)))) \<and>
   (status r = rejected \<longrightarrow> rowButtons r = [] \<and> r \<notin> set (queue filterName corpus)) \<and>
   (distinct (map ident (salaries st)) \<and>
    (i, action) \<in> set (adminButtons filterName (salaries st)) \<and>
    r \<in> set (salaries st) \<and> status r = rejected \<longrightarrow>
      applyAction i action r = r \<and> r \<in> set (salaries (handleAction i action time st))) \<and>
   (ident r = i \<longrightarrow>
      status (applyAction i ''approve'' r) = auto_approved \<and>
      status (applyAction i ''reject'' r) = rejected)"
proof -
  have a: "(i, action) \<in> set (adminButtons filterName corpus) \<longrightarrow>
      (\<exists>s\<in>set corpus. ident s = i \<and>
         (action = ''approve'' \<and> (status s = flagged \<or> status s = needs_review) \<or>
          action = ''reject'' \<and>
            (status s = flagged \<or> status s = needs_review \<or>
             status s = auto_approved \<and> 1 \<le> flagCount s)))"
    using adminButtons_target by blast
  have b: "status r = rejected \<longrightarrow> rowButtons r = [] \<and> r \<notin> set (queue filterName corpus)"
    using queue_not_rejected [of r filterName corpus] by (auto simp add: rowButtons_def)
  have c: "distinct (map ident (salaries st)) \<and>
    (i, action) \<in> set (adminButtons filterName (salaries st)) \<and>
    r \<in> set (salaries st) \<and> status r = rejected \<longrightarrow>
      applyAction i action r = r \<and> r \<in> set (salaries (handleAction i action time st))"
  proof (intro impI, elim conjE)
    assume h: "distinct (map ident (salaries st))"
      "(i, action) \<in> set (adminButtons filterName (salaries st))"
      "r \<in> set (salaries st)" "status r = rejected"
    from adminButtons_target [OF h(2)] obtain s where
      s: "s \<in> set (salaries st)" "ident s = i" "status s \<noteq> rejected"
      by auto
    have "ident r \<noteq> i"
    proof
      assume "ident r = i"
      then have "s = r"
        using distinct_ident_eq [OF h(1) s(1) h(3)] s(2) by simp
      then show False
        using s(3) h(4) by simp
    qed
    then have u: "applyAction i action r = r"
      by (simp add: applyAction_def)
    then have "r \<in> applyAction i action ` set (salaries st)"
      using h(3) by force
    with u show "applyAction i action r = r \<and>
        r \<in> set (salaries (handleAction i action time st))"
      by (simp add: handleAction_def)
  qed
  have d: "ident r = i \<longrightarrow>
      status (applyAction i ''approve'' r) = auto_approved \<and>
      status (applyAction i ''reject'' r) = rejected"
    by (simp add: applyAction_def)
  show ?thesis
    using a b c d by blast
qed

theorem C6_moderation_buttons_witness:
  "(8, ''approve'') \<in> set (adminButtons ''all_review'' mixedCorpus) \<and>
   (sampleEntry needs_review)\<lparr>ident := 8\<rparr> \<in> set mixedCorpus \<and>
   status (sampleEntry rejected) = rejected \<and>
   rowButtons (sampleEntry rejected) = [] \<and>
   distinct (map ident (salaries (sampleState (sampleEntry rejected # tl mixedCorpus)))) \<and>
   (8, ''approve'')
     \<in> set (adminButtons ''all_review''
             (salaries (sampleState (sampleEntry rejected # tl mixedCorpus)))) \<and>
   sampleEntry rejected \<in> set (salaries (sampleState (sampleEntry rejected # tl mixedCorpus))) \<and>
   sampleEntry rejected
     \<in> set (salaries (handleAction 8 ''approve'' ''10:00''
              (sampleState (sampleEntry rejected # tl mixedCorpus)))) \<and>
   status (applyAction 8 ''reject'' ((sampleEntry needs_review)\<lparr>ident := 8\<rparr>)) = rejected"
proof -
  have a: "(8, ''approve'') \<in> set (adminButtons ''all_review'' mixedCorpus)"
    by (simp add: adminButtons_def queue_def rowButtons_def mixedCorpus_def sampleEntry_def
        Let_def)
  have b: "(sampleEntry needs_review)\<lparr>ident := 8\<rparr> \<in> set mixedCorpus"
    "status (sampleEntry rejected) = rejected"
    "ident ((sampleEntry needs_review)\<lparr>ident := 8\<rparr>) = 8"
    by (simp_all add: mixedCorpus_def sampleEntry_def)
  have c: "distinct (map ident (salaries (sampleState (sampleEntry rejected # tl mixedCorpus))))"
    "sampleEntry rejected \<in> set (salaries (sampleState (sampleEntry rejected # tl mixedCorpus)))"
    by (simp_all add: sampleState_def mixedCorpus_def sampleEntry_def)
  have d: "(8, ''approve'')
     \<in> set (adminButtons ''all_review''
             (salaries (sampleState (sampleEntry rejected # tl mixedCorpus))))"
    by (simp add: adminButtons_def queue_def rowButtons_def mixedCorpus_def sampleEntry_def
        sampleState_def Let_def)
  show ?thesis
    using a b c d
      C6_moderation_buttons [where i = 8 and action = "''approve''"
        and filterName = "''all_review''" and corpus = mixedCorpus
        and r = "sampleEntry rejected"
        and st = "sampleState (sampleEntry rejected # tl mixedCorpus)" and time = "''10:00''"]
      C6_moderation_buttons [where i = 8 and r = "(sampleEntry needs_review)\<lparr>ident := 8\<rparr>"]
    by auto
qed

end
